theory Spec2Isabelle
  imports Main "HOL-Library.AList"
begin

section \<open>Runtime hosts override: the two plugin variants\<close>

text \<open>
  The repository holds two implementations of one design:
  \<^item> \<^verbatim>\<open>src/github_tmdb_runtime_hosts/__init__.py\<close> (plugin version 1.4.0), whose
    definitions carry the prefix \<open>gh_\<close> here;
  \<^item> \<^verbatim>\<open>src/plugins.v2/tmdb_runtime_hosts/__init__.py\<close> (plugin version 1.5.0), whose
    definitions carry the prefix \<open>v2_\<close>.
  What the two files share word for word (the line parser, the patched resolver) is
  defined once.
\<close>

subsection \<open>Text\<close>

text \<open>
  A Python \<open>str\<close> is a sequence of code points. The model uses \<open>string\<close>, whose
  characters are the code points below 256; the text primitives below are Python's
  \<open>str.isspace\<close>, \<open>str.lower\<close>, \<open>str.strip\<close>, \<open>str.split\<close>, \<open>str.splitlines\<close>
  and \<open>str.startswith\<close> on that range.
\<close>

definition isspace :: "char \<Rightarrow> bool" where
  "isspace c \<longleftrightarrow> c \<in> set [CHR 0x09, CHR 0x0A, CHR 0x0B, CHR 0x0C, CHR 0x0D,
     CHR 0x1C, CHR 0x1D, CHR 0x1E, CHR 0x1F, CHR 0x20, CHR 0x85, CHR 0xA0]"

definition is_linebreak :: "char \<Rightarrow> bool" where
  "is_linebreak c \<longleftrightarrow> c \<in> set [CHR 0x0A, CHR 0x0B, CHR 0x0C, CHR 0x0D,
     CHR 0x1C, CHR 0x1D, CHR 0x1E, CHR 0x85]"

definition upper_letters :: string where
  "upper_letters = ''ABCDEFGHIJKLMNOPQRSTUVWXYZ'' @
     [CHR 0xC0, CHR 0xC1, CHR 0xC2, CHR 0xC3, CHR 0xC4, CHR 0xC5, CHR 0xC6, CHR 0xC7,
      CHR 0xC8, CHR 0xC9, CHR 0xCA, CHR 0xCB, CHR 0xCC, CHR 0xCD, CHR 0xCE, CHR 0xCF,
      CHR 0xD0, CHR 0xD1, CHR 0xD2, CHR 0xD3, CHR 0xD4, CHR 0xD5, CHR 0xD6,
      CHR 0xD8, CHR 0xD9, CHR 0xDA, CHR 0xDB, CHR 0xDC, CHR 0xDD, CHR 0xDE]"

definition lower_letters :: string where
  "lower_letters = ''abcdefghijklmnopqrstuvwxyz'' @
     [CHR 0xE0, CHR 0xE1, CHR 0xE2, CHR 0xE3, CHR 0xE4, CHR 0xE5, CHR 0xE6, CHR 0xE7,
      CHR 0xE8, CHR 0xE9, CHR 0xEA, CHR 0xEB, CHR 0xEC, CHR 0xED, CHR 0xEE, CHR 0xEF,
      CHR 0xF0, CHR 0xF1, CHR 0xF2, CHR 0xF3, CHR 0xF4, CHR 0xF5, CHR 0xF6,
      CHR 0xF8, CHR 0xF9, CHR 0xFA, CHR 0xFB, CHR 0xFC, CHR 0xFD, CHR 0xFE]"

definition lower_char :: "char \<Rightarrow> char" where
  "lower_char c = (case map_of (zip upper_letters lower_letters) c of
                     None \<Rightarrow> c | Some d \<Rightarrow> d)"

definition lower :: "string \<Rightarrow> string" where
  "lower s = map lower_char s"

definition strip :: "string \<Rightarrow> string" where
  "strip s = rev (dropWhile isspace (rev (dropWhile isspace s)))"

definition startswith :: "string \<Rightarrow> string \<Rightarrow> bool" where
  "startswith s p \<longleftrightarrow> take (length p) s = p"

text \<open>
  \<open>str.split()\<close> without arguments: the maximal runs of non-whitespace characters.
  The first argument of \<open>split_from\<close> is the token being read, reversed.
\<close>

fun split_from :: "string \<Rightarrow> string \<Rightarrow> string list" where
  "split_from cur [] = (if cur = [] then [] else [rev cur])"
| "split_from cur (c # cs) =
     (if isspace c then (if cur = [] then split_from [] cs else rev cur # split_from [] cs)
      else split_from (c # cur) cs)"

definition split :: "string \<Rightarrow> string list" where
  "split s = split_from [] s"

text \<open>
  \<open>str.splitlines()\<close>: a line ends at a line boundary, \<open>\r\n\<close> is one boundary, and
  no empty last line is produced when the text ends with a boundary.
\<close>

fun splitlines_from :: "string \<Rightarrow> string \<Rightarrow> string list" where
  "splitlines_from cur [] = (if cur = [] then [] else [rev cur])"
| "splitlines_from cur (c # cs) =
     (if c = CHR 0x0D then
        (case cs of
           [] \<Rightarrow> [rev cur]
         | d # ds \<Rightarrow> if d = CHR 0x0A then rev cur # splitlines_from [] ds
                     else rev cur # splitlines_from [] cs)
      else if is_linebreak c then rev cur # splitlines_from [] cs
      else splitlines_from (c # cur) cs)"

definition splitlines :: "string \<Rightarrow> string list" where
  "splitlines s = splitlines_from [] s"

subsection \<open>Python values and exceptions\<close>

datatype py_error =
    IndexError
  | KeyError string
  | AttributeError
  | RecursionError
  | JobLookupError
  | OSError string

text \<open>
  \<open>xs[i]\<close>: an index from \<open>-len(xs)\<close> to \<open>-1\<close> is taken from the end, and an index
  outside \<open>-len(xs) .. len(xs) - 1\<close> raises \<open>IndexError\<close>.
\<close>

definition py_index :: "'a list \<Rightarrow> int \<Rightarrow> py_error + 'a" where
  "py_index xs i =
     (if 0 \<le> i \<and> i < int (length xs) then Inr (xs ! nat i)
      else if i < 0 \<and> - int (length xs) \<le> i then Inr (xs ! nat (int (length xs) + i))
      else Inl IndexError)"

subsection \<open>Host tables\<close>

datatype family = AF_INET | AF_INET6

type_synonym entry = "string \<times> family"

text \<open>
  A \<open>dict\<close> from host name to \<open>(ip, family)\<close>, in insertion order: assigning to a key
  that is present replaces its value in place, a new key goes to the end.
\<close>

type_synonym table = "(string \<times> entry) list"

definition dict_set :: "table \<Rightarrow> string \<Rightarrow> entry \<Rightarrow> table" where
  "dict_set d k v = AList.update k v d"

definition dict_get :: "table \<Rightarrow> string \<Rightarrow> entry option" where
  "dict_get d k = map_of d k"

text \<open>\<open>base.update(other)\<close>: the items of \<open>other\<close> are assigned in their order.\<close>

definition dict_update :: "table \<Rightarrow> table \<Rightarrow> table" where
  "dict_update base other = fold (\<lambda>(k, v) d. dict_set d k v) other base"

subsection \<open>Parsing one hosts document\<close>

text \<open>
  \<open>ipaddress.ip_address\<close> belongs to the Python library; the model takes its verdict
  (returns, or raises \<open>ValueError\<close>) as the parameter \<open>accepts\<close>.
\<close>

definition is_valid_ip :: "(string \<Rightarrow> bool) \<Rightarrow> string \<Rightarrow> bool" where
  "is_valid_ip accepts addr = (if accepts addr then True else False)"

text \<open>The body of the \<open>for line in resp.text.splitlines()\<close> loop of \<open>_load_hosts\<close>.\<close>

definition parse_line :: "(string \<Rightarrow> bool) \<Rightarrow> table \<Rightarrow> string \<Rightarrow> py_error + table" where
  "parse_line accepts hosts raw =
     (let line = strip raw in
      if line \<noteq> [] \<and> \<not> startswith line ''#'' then
        (let parts = split line in
         if length parts \<ge> 2 then
           (case py_index parts 0 of
              Inl e \<Rightarrow> Inl e
            | Inr ip \<Rightarrow>
               (case py_index parts (- 1) of
                  Inl e \<Rightarrow> Inl e
                | Inr h \<Rightarrow>
                   (let host = lower h in
                    if is_valid_ip accepts ip then
                      (let af = (if CHR '':'' \<in> set ip then AF_INET6 else AF_INET)
                       in Inr (dict_set hosts host (ip, af)))
                    else Inr hosts)))
         else Inr hosts)
      else Inr hosts)"

text \<open>
  The loop itself. An exception leaves the loop with the table as filled so far, which
  is what the enclosing \<open>try\<close> of the first variant goes on to return.
\<close>

fun parse_loop :: "(string \<Rightarrow> bool) \<Rightarrow> table \<Rightarrow> string list \<Rightarrow> table \<times> py_error option" where
  "parse_loop accepts hosts [] = (hosts, None)"
| "parse_loop accepts hosts (l # ls) =
     (case parse_line accepts hosts l of
        Inl e \<Rightarrow> (hosts, Some e)
      | Inr hosts' \<Rightarrow> parse_loop accepts hosts' ls)"

definition parse :: "(string \<Rightarrow> bool) \<Rightarrow> string \<Rightarrow> table \<times> py_error option" where
  "parse accepts document = parse_loop accepts [] (splitlines document)"

text \<open>
  The parse as the specification words it, line by line on the raw line: a blank line
  and a comment line give nothing; a line of at least two tokens whose first token is a
  valid address gives one entry; any other line gives nothing.
\<close>

definition blank_line :: "string \<Rightarrow> bool" where
  "blank_line l \<longleftrightarrow> list_all isspace l"

definition comment_line :: "string \<Rightarrow> bool" where
  "comment_line l \<longleftrightarrow> (case dropWhile isspace l of [] \<Rightarrow> False | c # _ \<Rightarrow> c = CHR ''#'')"

definition line_entry :: "(string \<Rightarrow> bool) \<Rightarrow> string \<Rightarrow> (string \<times> entry) option" where
  "line_entry accepts l =
     (if blank_line l \<or> comment_line l then None
      else (case split l of
              a # b # ts \<Rightarrow>
                if accepts a
                then Some (lower (last (b # ts)),
                           (a, if CHR '':'' \<in> set a then AF_INET6 else AF_INET))
                else None
            | _ \<Rightarrow> None))"

definition spec_entries :: "(string \<Rightarrow> bool) \<Rightarrow> string \<Rightarrow> (string \<times> entry) list" where
  "spec_entries accepts document = List.map_filter (line_entry accepts) (splitlines document)"

subsection \<open>Process state\<close>

text \<open>
  \<open>socket.getaddrinfo\<close> holds a function: the platform's own, or a closure made by the
  patch function. The closure keeps a reference to the \<open>dict\<close> object it was given and
  reads the module global \<open>_ORIGINAL_GETADDRINFO\<close> when it is called.
\<close>

datatype resolver = Platform | Patched nat

datatype cause = Transport string | HTTPError nat | Exception py_error

datatype log_event =
    FetchFailed string cause
  | Loaded nat string
  | PrimaryEmpty
  | ProbeOk string
  | ProbeFailed string cause
  | GateClosed
  | MergedTotal nat
  | UpdateStarted
  | DnsPatched
  | UpdateDone
  | Enabled
  | Disabled
  | JobRegistered int
  | InitDone
  | Stopped

datatype http_method = GET | HEAD

text \<open>
  The configuration \<open>dict\<close> of the second variant: the truth value of \<open>enable\<close>, the
  value of \<open>update_hour\<close> (each \<open>None\<close> when the key is absent) and the keys that hold
  an URL.
\<close>

record config =
  cfg_enable :: "bool option"
  cfg_update_hour :: "int option"
  cfg_urls :: "(string \<times> string) list"

text \<open>
  Dict objects live in \<open>heap\<close> and are named by their index, so that two names for one
  object see each other's updates. Indices are made by \<open>alloc\<close> only; \<open>deref\<close> of an
  index that was never allocated, which no run produces, is the empty table. \<open>clock\<close>
  counts the network requests made and \<open>requests\<close> records them.
\<close>

record pstate =
  heap :: "table list"
  getaddrinfo :: resolver
  ORIGINAL_GETADDRINFO :: resolver
  RUNTIME_HOSTS :: nat
  self_config :: config
  job :: "(int \<times> int option) option"
  log :: "log_event list"
  clock :: nat
  requests :: "(http_method \<times> string) list"

definition DEFAULT_CONFIG :: config where
  "DEFAULT_CONFIG = \<lparr>cfg_enable = Some True, cfg_update_hour = Some 4,
     cfg_urls =
       [(''github_url'', ''https://raw.hellogithub.com/hosts''),
        (''tmdb_ipv4_url'', ''https://raw.githubusercontent.com/cnwikee/CheckTMDB/main/Tmdb_host_ipv4''),
        (''tmdb_ipv6_url'', ''https://raw.githubusercontent.com/cnwikee/CheckTMDB/main/Tmdb_host_ipv6''),
        (''probe_url'', ''https://api.github.com'')]\<rparr>"

text \<open>
  The state when the module has been loaded: \<open>_ORIGINAL_GETADDRINFO = socket.getaddrinfo\<close>
  and \<open>_RUNTIME_HOSTS = {}\<close> (the object at index 0).
\<close>

definition module_loaded :: pstate where
  "module_loaded = \<lparr>heap = [[]], getaddrinfo = Platform, ORIGINAL_GETADDRINFO = Platform,
     RUNTIME_HOSTS = 0, self_config = DEFAULT_CONFIG, job = None, log = [], clock = 0,
     requests = []\<rparr>"

definition alloc :: "table \<Rightarrow> pstate \<Rightarrow> nat \<times> pstate" where
  "alloc d st = (length (heap st), st\<lparr>heap := heap st @ [d]\<rparr>)"

definition deref :: "pstate \<Rightarrow> nat \<Rightarrow> table" where
  "deref st r = (if r < length (heap st) then heap st ! r else [])"

definition store :: "nat \<Rightarrow> table \<Rightarrow> pstate \<Rightarrow> pstate" where
  "store r d st = st\<lparr>heap := (heap st)[r := d]\<rparr>"

definition logger :: "log_event \<Rightarrow> pstate \<Rightarrow> pstate" where
  "logger ev st = st\<lparr>log := log st @ [ev]\<rparr>"

text \<open>
  The two ways the code merges tables. \<open>base.update(overlay)\<close> writes into the object
  \<open>base\<close>; \<open>{**base, **overlay}\<close> builds a new object from the items of \<open>base\<close>
  followed by those of \<open>overlay\<close>.
\<close>

definition update_in_place :: "nat \<Rightarrow> nat \<Rightarrow> pstate \<Rightarrow> pstate" where
  "update_in_place base overlay st =
     store base (dict_update (deref st base) (deref st overlay)) st"

definition unpack_merge :: "nat \<Rightarrow> nat \<Rightarrow> pstate \<Rightarrow> nat \<times> pstate" where
  "unpack_merge base overlay st =
     alloc (dict_update (dict_update [] (deref st base)) (deref st overlay)) st"

subsection \<open>The world outside\<close>

datatype http_result = Raised string | Response nat string

datatype host_arg = HostName string | NoHost

datatype port = PortInt int | PortStr string | NoPort

datatype socktype = SOCK_STREAM | SOCK_DGRAM | SOCK_RAW

record hints =
  hint_family :: "family option"
  hint_type :: "socktype option"
  hint_proto :: nat
  hint_flags :: nat

datatype sockaddr = Sockaddr2 string port | Sockaddr4 string port nat nat

type_synonym addrinfo = "family \<times> socktype \<times> nat \<times> string \<times> sockaddr"

text \<open>
  What the code calls and does not define: the address validator, the HTTP client (its
  answer may depend on the moment of the request, the \<open>clock\<close>) and the platform's
  resolver. \<open>Raised\<close> is any exception of \<open>requests.get\<close> or \<open>requests.head\<close>,
  a timeout included.
\<close>

record env =
  ip_accepts :: "string \<Rightarrow> bool"
  http_get :: "nat \<Rightarrow> string \<Rightarrow> http_result"
  http_head :: "nat \<Rightarrow> string \<Rightarrow> http_result"
  platform_getaddrinfo :: "host_arg \<Rightarrow> port \<Rightarrow> hints \<Rightarrow> py_error + addrinfo list"

text \<open>
  \<open>Response.raise_for_status\<close> of the \<open>requests\<close> library raises \<open>HTTPError\<close> for
  the client and server error statuses, 400 to 599, and for no other status.
\<close>

definition raise_for_status :: "nat \<Rightarrow> bool" where
  "raise_for_status status \<longleftrightarrow> 400 \<le> status \<and> status < 600"

definition requests_get :: "env \<Rightarrow> string \<Rightarrow> pstate \<Rightarrow> http_result \<times> pstate" where
  "requests_get e url st =
     (http_get e (clock st) url,
      st\<lparr>clock := Suc (clock st), requests := requests st @ [(GET, url)]\<rparr>)"

definition requests_head :: "env \<Rightarrow> string \<Rightarrow> pstate \<Rightarrow> http_result \<times> pstate" where
  "requests_head e url st =
     (http_head e (clock st) url,
      st\<lparr>clock := Suc (clock st), requests := requests st @ [(HEAD, url)]\<rparr>)"

subsection \<open>The patched resolver (both variants)\<close>

text \<open>
  \<open>_patched\<close> / \<open>patched_getaddrinfo\<close>. The first argument is the number of stack
  frames left: a call that finds none raises \<open>RecursionError\<close>. A tuple
  \<open>(ip, family)\<close> is never falsy, so \<open>if item\<close> tests for \<open>None\<close> only.
\<close>

fun run_getaddrinfo ::
  "nat \<Rightarrow> env \<Rightarrow> pstate \<Rightarrow> resolver \<Rightarrow> host_arg \<Rightarrow> port \<Rightarrow> hints \<Rightarrow> py_error + addrinfo list"
where
  "run_getaddrinfo 0 e st f host prt hs = Inl RecursionError"
| "run_getaddrinfo (Suc frames) e st Platform host prt hs = platform_getaddrinfo e host prt hs"
| "run_getaddrinfo (Suc frames) e st (Patched hosts) host prt hs =
     (case host of
        NoHost \<Rightarrow> Inl AttributeError
      | HostName h \<Rightarrow>
         (case dict_get (deref st hosts) (lower h) of
            Some (ip, fam) \<Rightarrow> Inr [(fam, SOCK_STREAM, 0, [], Sockaddr2 ip prt)]
          | None \<Rightarrow> run_getaddrinfo frames e st (ORIGINAL_GETADDRINFO st) host prt hs))"

text \<open>A call of \<open>socket.getaddrinfo\<close> by any code of the process.\<close>

definition socket_getaddrinfo ::
  "nat \<Rightarrow> env \<Rightarrow> pstate \<Rightarrow> host_arg \<Rightarrow> port \<Rightarrow> hints \<Rightarrow> py_error + addrinfo list"
where
  "socket_getaddrinfo frames e st host prt hs =
     run_getaddrinfo frames e st (getaddrinfo st) host prt hs"

subsection \<open>First variant: \<^verbatim>\<open>src/github_tmdb_runtime_hosts\<close>\<close>

definition gh_load_hosts :: "env \<Rightarrow> string \<Rightarrow> pstate \<Rightarrow> nat \<times> pstate" where
  "gh_load_hosts e url st =
     (let (hosts, st0) = alloc [] st;
          (resp, st1) = requests_get e url st0
      in case resp of
           Raised c \<Rightarrow> (hosts, logger (FetchFailed url (Transport c)) st1)
         | Response status body \<Rightarrow>
             if raise_for_status status
             then (hosts, logger (FetchFailed url (HTTPError status)) st1)
             else (case parse_loop (ip_accepts e) (deref st1 hosts) (splitlines body) of
                     (t, None) \<Rightarrow> (hosts, store hosts t st1)
                   | (t, Some err) \<Rightarrow>
                       (hosts, logger (FetchFailed url (Exception err)) (store hosts t st1))))"

definition gh_patch :: "nat \<Rightarrow> pstate \<Rightarrow> pstate" where
  "gh_patch hosts st = st\<lparr>getaddrinfo := Patched hosts\<rparr>"

definition gh_probe_url :: string where
  "gh_probe_url = ''https://raw.githubusercontent.com''"

definition gh_probe_github :: "env \<Rightarrow> pstate \<Rightarrow> bool \<times> pstate" where
  "gh_probe_github e st =
     (let (resp, st1) = requests_head e gh_probe_url st
      in case resp of
           Raised c \<Rightarrow> (False, logger (ProbeFailed gh_probe_url (Transport c)) st1)
         | Response status body \<Rightarrow>
             if raise_for_status status
             then (False, logger (ProbeFailed gh_probe_url (HTTPError status)) st1)
             else (True, logger (ProbeOk gh_probe_url) st1))"

definition gh_github_url :: string where
  "gh_github_url = ''https://raw.hellogithub.com/hosts''"

definition gh_tmdb_ipv4_url :: string where
  "gh_tmdb_ipv4_url =
     ''https://raw.githubusercontent.com/cnwikee/CheckTMDB/refs/heads/main/Tmdb_host_ipv4''"

definition gh_tmdb_ipv6_url :: string where
  "gh_tmdb_ipv6_url =
     ''https://raw.githubusercontent.com/cnwikee/CheckTMDB/refs/heads/main/Tmdb_host_ipv6''"

text \<open>The third step of \<open>_update_all\<close>, after the probe has passed.\<close>

definition gh_fetch_and_merge :: "env \<Rightarrow> nat \<Rightarrow> pstate \<Rightarrow> pstate" where
  "gh_fetch_and_merge e github_hosts st =
     (let (tmdb_hosts, st1) = gh_load_hosts e gh_tmdb_ipv4_url st;
          (ipv6_hosts, st2) = gh_load_hosts e gh_tmdb_ipv6_url st1;
          st3 = update_in_place tmdb_hosts ipv6_hosts st2;
          st4 = update_in_place github_hosts tmdb_hosts st3;
          st5 = gh_patch github_hosts st4
      in logger (MergedTotal (length (deref st5 github_hosts))) st5)"

definition gh_update_all :: "env \<Rightarrow> pstate \<Rightarrow> pstate" where
  "gh_update_all e st =
     (let (github_hosts, st1) = gh_load_hosts e gh_github_url st
      in if deref st1 github_hosts = [] then logger PrimaryEmpty st1
         else (let st2 = gh_patch github_hosts st1;
                   (ok, st3) = gh_probe_github e st2
               in if \<not> ok then logger GateClosed st3
                  else gh_fetch_and_merge e github_hosts st3))"

text \<open>
  \<open>scheduler.remove_job\<close> raises \<open>JobLookupError\<close> when no job has the id;
  \<open>stop_service\<close> swallows every exception.
\<close>

definition scheduler_remove_job :: "pstate \<Rightarrow> py_error option \<times> pstate" where
  "scheduler_remove_job st =
     (case job st of
        None \<Rightarrow> (Some JobLookupError, st)
      | Some j \<Rightarrow> (None, st\<lparr>job := None\<rparr>))"

definition gh_stop_service :: "pstate \<Rightarrow> pstate" where
  "gh_stop_service st =
     (case scheduler_remove_job st of
        (None, st1) \<Rightarrow> st1
      | (Some err, st1) \<Rightarrow> st1)"

definition gh_register_job :: "pstate \<Rightarrow> pstate" where
  "gh_register_job st = (gh_stop_service st)\<lparr>job := Some (4, Some 0)\<rparr>"

definition gh_enable :: "env \<Rightarrow> pstate \<Rightarrow> pstate" where
  "gh_enable e st = logger Enabled (gh_register_job (gh_update_all e st))"

definition gh_disable :: "pstate \<Rightarrow> pstate" where
  "gh_disable st =
     (let st1 = gh_stop_service st;
          st2 = st1\<lparr>getaddrinfo := ORIGINAL_GETADDRINFO st1\<rparr>;
          st3 = store (RUNTIME_HOSTS st2) [] st2
      in logger Disabled st3)"

text \<open>
  \<open>init_plugin\<close>: \<open>bool(config and config.get("enable"))\<close> is false for \<open>None\<close>, for an
  empty \<open>dict\<close> and for a missing or falsy \<open>enable\<close>.
\<close>

definition gh_init_plugin :: "env \<Rightarrow> config option \<Rightarrow> pstate \<Rightarrow> pstate" where
  "gh_init_plugin e cfg st =
     (let enabled = (case cfg of None \<Rightarrow> False | Some c \<Rightarrow> cfg_enable c = Some True)
      in if enabled then gh_enable e st else gh_disable st)"

definition gh_get_state :: "pstate \<Rightarrow> bool" where
  "gh_get_state st \<longleftrightarrow> job st \<noteq> None"

subsection \<open>Second variant: \<^verbatim>\<open>src/plugins.v2/tmdb_runtime_hosts\<close>\<close>

text \<open>
  On failure the second variant returns a new empty \<open>dict\<close>, not the one it was filling.
\<close>

definition v2_load_hosts :: "env \<Rightarrow> string \<Rightarrow> pstate \<Rightarrow> nat \<times> pstate" where
  "v2_load_hosts e url st =
     (let (hosts, st0) = alloc [] st;
          (resp, st1) = requests_get e url st0
      in case resp of
           Raised c \<Rightarrow> alloc [] (logger (FetchFailed url (Transport c)) st1)
         | Response status body \<Rightarrow>
             if raise_for_status status
             then alloc [] (logger (FetchFailed url (HTTPError status)) st1)
             else (case parse_loop (ip_accepts e) (deref st1 hosts) (splitlines body) of
                     (t, None) \<Rightarrow>
                       (hosts, logger (Loaded (length t) url) (store hosts t st1))
                   | (t, Some err) \<Rightarrow>
                       alloc [] (logger (FetchFailed url (Exception err)) (store hosts t st1))))"

definition v2_patch_dns :: "nat \<Rightarrow> pstate \<Rightarrow> pstate" where
  "v2_patch_dns hosts st = logger DnsPatched (st\<lparr>getaddrinfo := Patched hosts\<rparr>)"

definition v2_probe_connectivity :: "env \<Rightarrow> string \<Rightarrow> pstate \<Rightarrow> bool \<times> pstate" where
  "v2_probe_connectivity e url st =
     (let (resp, st1) = requests_head e url st
      in case resp of
           Raised c \<Rightarrow> (False, logger (ProbeFailed url (Transport c)) st1)
         | Response status body \<Rightarrow>
             if raise_for_status status
             then (False, logger (ProbeFailed url (HTTPError status)) st1)
             else (True, logger (ProbeOk url) st1))"

text \<open>\<open>self.config[key]\<close> raises \<open>KeyError\<close> when the key is absent.\<close>

definition config_item :: "pstate \<Rightarrow> string \<Rightarrow> py_error + string" where
  "config_item st key =
     (case map_of (cfg_urls (self_config st)) key of
        None \<Rightarrow> Inl (KeyError key)
      | Some url \<Rightarrow> Inr url)"

text \<open>Steps 3 to 5 of \<open>_update_all\<close>, after the probe has passed.\<close>

definition v2_fetch_and_merge :: "env \<Rightarrow> nat \<Rightarrow> pstate \<Rightarrow> py_error option \<times> pstate" where
  "v2_fetch_and_merge e github_hosts st =
     (case config_item st ''tmdb_ipv4_url'' of
        Inl err \<Rightarrow> (Some err, st)
      | Inr ipv4_url \<Rightarrow>
         (let (tmdb_hosts, st1) = v2_load_hosts e ipv4_url st
          in case config_item st1 ''tmdb_ipv6_url'' of
               Inl err \<Rightarrow> (Some err, st1)
             | Inr ipv6_url \<Rightarrow>
                (let (ipv6_hosts, st2) = v2_load_hosts e ipv6_url st1;
                     st3 = update_in_place tmdb_hosts ipv6_hosts st2;
                     (combined_hosts, st4) = unpack_merge github_hosts tmdb_hosts st3;
                     st5 = logger (MergedTotal (length (deref st4 combined_hosts))) st4;
                     st6 = v2_patch_dns combined_hosts st5;
                     st7 = st6\<lparr>RUNTIME_HOSTS := combined_hosts\<rparr>
                 in (None, logger UpdateDone st7))))"

text \<open>
  \<open>_update_all\<close>. The first component of the result is the exception that leaves the
  function, if any.
\<close>

definition v2_update_all :: "env \<Rightarrow> pstate \<Rightarrow> py_error option \<times> pstate" where
  "v2_update_all e st =
     (let st0 = logger UpdateStarted st
      in case config_item st0 ''github_url'' of
           Inl err \<Rightarrow> (Some err, st0)
         | Inr github_url \<Rightarrow>
            (let (github_hosts, st1) = v2_load_hosts e github_url st0
             in if deref st1 github_hosts = [] then (None, logger PrimaryEmpty st1)
                else (let st2 = v2_patch_dns github_hosts st1
                      in case config_item st2 ''probe_url'' of
                           Inl err \<Rightarrow> (Some err, st2)
                         | Inr probe_url \<Rightarrow>
                            (let (ok, st3) = v2_probe_connectivity e probe_url st2
                             in if \<not> ok then (None, logger GateClosed st3)
                                else v2_fetch_and_merge e github_hosts st3))))"

definition v2_enable :: "env \<Rightarrow> pstate \<Rightarrow> py_error option \<times> pstate" where
  "v2_enable e st =
     (case v2_update_all e st of
        (Some err, st1) \<Rightarrow> (Some err, st1)
      | (None, st1) \<Rightarrow>
          (None, logger Enabled (st1\<lparr>ORIGINAL_GETADDRINFO := getaddrinfo st1\<rparr>)))"

definition v2_disable :: "pstate \<Rightarrow> pstate" where
  "v2_disable st =
     (let st1 = st\<lparr>getaddrinfo := ORIGINAL_GETADDRINFO st\<rparr>;
          st2 = store (RUNTIME_HOSTS st1) [] st1
      in logger Disabled st2)"

text \<open>
  \<open>remove_job\<close> and \<open>add_job\<close> of \<open>moviepilot.core.scheduler\<close> are the host's; the
  model takes \<open>remove_job\<close> to do nothing when no job has the id.
\<close>

definition host_remove_job :: "pstate \<Rightarrow> pstate" where
  "host_remove_job st = st\<lparr>job := None\<rparr>"

definition config_enabled :: "pstate \<Rightarrow> bool" where
  "config_enabled st = (case cfg_enable (self_config st) of None \<Rightarrow> True | Some b \<Rightarrow> b)"

definition v2_register_job :: "pstate \<Rightarrow> pstate" where
  "v2_register_job st =
     (let st1 = host_remove_job st
      in if config_enabled st1 then
           (let update_hour = (case cfg_update_hour (self_config st1) of
                                 None \<Rightarrow> 4 | Some h \<Rightarrow> h)
            in logger (JobRegistered update_hour) (st1\<lparr>job := Some (update_hour, None)\<rparr>))
         else st1)"

text \<open>\<open>config or self.DEFAULT_CONFIG\<close>: \<open>None\<close> and the empty \<open>dict\<close> give the default.\<close>

definition v2_init_plugin :: "env \<Rightarrow> config option \<Rightarrow> pstate \<Rightarrow> py_error option \<times> pstate" where
  "v2_init_plugin e cfg st =
     (let c = (case cfg of
                 None \<Rightarrow> DEFAULT_CONFIG
               | Some c \<Rightarrow>
                   if cfg_enable c = None \<and> cfg_update_hour c = None \<and> cfg_urls c = []
                   then DEFAULT_CONFIG else c);
          st0 = st\<lparr>self_config := c\<rparr>;
          (raised, st1) = (if config_enabled st0 then v2_enable e st0
                           else (None, v2_disable st0))
      in case raised of
           Some err \<Rightarrow> (Some err, st1)
         | None \<Rightarrow> (None, logger InitDone (v2_register_job st1)))"

definition v2_stop_plugin :: "pstate \<Rightarrow> pstate" where
  "v2_stop_plugin st = logger Stopped (host_remove_job (v2_disable st))"

definition v2_get_state :: "pstate \<Rightarrow> bool" where
  "v2_get_state st = config_enabled st"

subsection \<open>The outcome of a request, in closed form\<close>

text \<open>
  The outcome of one GET at the moment \<open>t\<close>, read off the answer alone: the failure
  that is reported, if any, and the table handed to the caller. The fetch functions of
  both variants are shown below to compute exactly these. \<open>probe_passes\<close> is the same
  for the HEAD of the probe.
\<close>

definition fetch_failure :: "env \<Rightarrow> nat \<Rightarrow> string \<Rightarrow> cause option" where
  "fetch_failure e t url =
     (case http_get e t url of
        Raised c \<Rightarrow> Some (Transport c)
      | Response status body \<Rightarrow> if raise_for_status status then Some (HTTPError status) else None)"

definition fetched :: "env \<Rightarrow> nat \<Rightarrow> string \<Rightarrow> table" where
  "fetched e t url =
     (case http_get e t url of
        Raised c \<Rightarrow> []
      | Response status body \<Rightarrow>
          if raise_for_status status then [] else fst (parse (ip_accepts e) body))"

definition probe_passes :: "env \<Rightarrow> nat \<Rightarrow> string \<Rightarrow> bool" where
  "probe_passes e t url =
     (case http_head e t url of
        Raised c \<Rightarrow> False
      | Response status body \<Rightarrow> \<not> raise_for_status status)"

subsection \<open>Concrete scenarios\<close>

text \<open>
  The scenarios of the specification, used to run the definitions: the primary document
  of Scenario A, a validator that accepts the addresses occurring in the scenarios, and
  a platform resolver with one fixed answer.
\<close>

definition primary_document :: string where
  "primary_document =
     ''140.82.112.3 github.com'' @ [CHR 0x0A] @ ''185.199.108.133 raw.githubusercontent.com''"

definition primary_table :: table where
  "primary_table =
     [(''github.com'', (''140.82.112.3'', AF_INET)),
      (''raw.githubusercontent.com'', (''185.199.108.133'', AF_INET))]"

definition scenario_accepts :: "string \<Rightarrow> bool" where
  "scenario_accepts addr \<longleftrightarrow>
     addr \<in> set [''140.82.112.3'', ''185.199.108.133'', ''104.244.42.1'', ''2606:4700::1'']"

definition platform_answer :: "addrinfo list" where
  "platform_answer = [(AF_INET, SOCK_STREAM, 6, [], Sockaddr2 ''93.184.216.34'' (PortInt 443))]"

definition world :: "(string \<Rightarrow> http_result) \<Rightarrow> http_result \<Rightarrow> env" where
  "world get head =
     \<lparr>ip_accepts = scenario_accepts,
      http_get = (\<lambda>t url. get url),
      http_head = (\<lambda>t url. head),
      platform_getaddrinfo = (\<lambda>host prt hs. Inr platform_answer)\<rparr>"

text \<open>Scenario C: the primary source answers, everything else is unreachable.\<close>

definition primary_only :: "string \<Rightarrow> http_result" where
  "primary_only url =
     (if url = ''https://raw.hellogithub.com/hosts'' then Response 200 primary_document
      else Raised ''connection refused'')"

definition gated_world :: env where
  "gated_world = world primary_only (Raised ''timed out'')"

text \<open>Scenario B: nothing is reachable.\<close>

definition offline_world :: env where
  "offline_world = world (\<lambda>url. Raised ''connection refused'') (Raised ''timed out'')"

text \<open>
  Scenario A: all sources answer and the probe passes. The two variants name the
  secondary sources by different paths.
\<close>

definition all_sources :: "string \<Rightarrow> http_result" where
  "all_sources url =
     (if url = ''https://raw.hellogithub.com/hosts'' then Response 200 primary_document
      else if url = gh_tmdb_ipv4_url
            \<or> url = ''https://raw.githubusercontent.com/cnwikee/CheckTMDB/main/Tmdb_host_ipv4''
      then Response 200 ''104.244.42.1 api.themoviedb.org''
      else Response 200 [])"

definition open_world :: env where
  "open_world = world all_sources (Response 200 [])"

text \<open>A source that answers with status 300 and a hosts document as its body.\<close>

definition multiple_choices_world :: env where
  "multiple_choices_world =
     world (\<lambda>url. Response 300 ''140.82.112.3 github.com'') (Response 200 [])"

text \<open>A source that answers with status 404.\<close>

definition not_found_world :: env where
  "not_found_world = world (\<lambda>url. Response 404 ''Not Found'') (Response 200 [])"

text \<open>A state that holds the primary table and the table of one secondary source.\<close>

definition tmdb_table :: table where
  "tmdb_table = [(''api.themoviedb.org'', (''104.244.42.1'', AF_INET))]"

definition two_tables :: pstate where
  "two_tables = module_loaded\<lparr>heap := [[], primary_table, tmdb_table]\<rparr>"

definition datagram_hints :: hints where
  "datagram_hints =
     \<lparr>hint_family = Some AF_INET6, hint_type = Some SOCK_DGRAM, hint_proto = 17, hint_flags = 0\<rparr>"

definition no_hints :: hints where
  "no_hints = \<lparr>hint_family = None, hint_type = None, hint_proto = 0, hint_flags = 0\<rparr>"

section \<open>Properties\<close>

subsection \<open>Text and the line parser\<close>

lemma split_from_dropWhile: "split_from [] (dropWhile isspace s) = split_from [] s"
  by (induction s) auto

lemma split_from_trailing: "list_all isspace ws \<Longrightarrow> split_from cur (s @ ws) = split_from cur s"
proof (induction s arbitrary: cur)
  case Nil
  then show ?case by (induction ws arbitrary: cur) auto
next
  case (Cons c s)
  then show ?case by simp
qed

lemma rstrip_decompose: "rev (dropWhile P (rev s)) @ rev (takeWhile P (rev s)) = s"
  by (metis rev_append rev_rev_ident takeWhile_dropWhile_id)

lemma split_from_rstrip: "split_from cur (rev (dropWhile isspace (rev s))) = split_from cur s"
proof -
  have "list_all isspace (rev (takeWhile isspace (rev s)))"
    by (simp add: list_all_iff) (meson set_takeWhileD)
  from split_from_trailing [OF this, of cur "rev (dropWhile isspace (rev s))"]
  show ?thesis by (simp add: rstrip_decompose)
qed

lemma split_strip: "split (strip l) = split l"
  by (simp add: split_def strip_def split_from_rstrip split_from_dropWhile)

lemma dropWhile_all_iff: "(\<forall>x\<in>set (dropWhile P l). P x) \<longleftrightarrow> (\<forall>x\<in>set l. P x)"
  by (induction l) auto

lemma strip_empty: "strip l = [] \<longleftrightarrow> blank_line l"
  by (simp add: strip_def blank_line_def list_all_iff dropWhile_eq_Nil_conv dropWhile_all_iff)

lemma rstrip_head:
  assumes "\<not> isspace c"
  shows "\<exists>t. rev (dropWhile isspace (rev (c # s))) = c # t"
proof -
  have "dropWhile isspace (rev s @ [c]) = dropWhile isspace (rev s) @ [c]"
    using assms by (induction "rev s" arbitrary: s) (auto simp: dropWhile_append)
  then show ?thesis by simp
qed

lemma startswith_hash: "startswith s ''#'' \<longleftrightarrow> (case s of [] \<Rightarrow> False | c # _ \<Rightarrow> c = CHR ''#'')"
  by (cases s) (auto simp: startswith_def)

lemma strip_comment: "startswith (strip l) ''#'' \<longleftrightarrow> comment_line l"
proof (cases "dropWhile isspace l")
  case Nil
  have "strip l = []" unfolding strip_def Nil by simp
  then show ?thesis unfolding startswith_hash comment_line_def Nil by simp
next
  case (Cons c s)
  then have "\<not> isspace c" by (metis hd_dropWhile list.distinct(1) list.sel(1))
  from rstrip_head [OF this, of s] obtain t where "rev (dropWhile isspace (rev (c # s))) = c # t" ..
  then have "strip l = c # t" unfolding strip_def Cons by simp
  then show ?thesis unfolding startswith_hash comment_line_def Cons by simp
qed

lemma py_index_first: "xs \<noteq> [] \<Longrightarrow> py_index xs 0 = Inr (hd xs)"
  by (cases xs) (auto simp: py_index_def)

lemma py_index_last: "xs \<noteq> [] \<Longrightarrow> py_index xs (- 1) = Inr (last xs)"
  by (cases xs) (auto simp: py_index_def last_conv_nth nat_add_distrib)

lemma parse_line_entry:
  "parse_line accepts hosts l =
     Inr (case line_entry accepts l of None \<Rightarrow> hosts | Some (k, v) \<Rightarrow> dict_set hosts k v)"
proof (cases "split l")
  case Nil
  then show ?thesis
    by (simp add: parse_line_def line_entry_def Let_def split_strip strip_empty strip_comment)
next
  case (Cons a ts)
  show ?thesis
  proof (cases ts)
    case Nil
    with Cons show ?thesis
      by (simp add: parse_line_def line_entry_def Let_def split_strip strip_empty strip_comment)
  next
    case (Cons b us)
    with \<open>split l = a # ts\<close> have sp: "split l = a # b # us" by simp
    then have "py_index (split l) 0 = Inr a" "py_index (split l) (- 1) = Inr (last (b # us))"
      using py_index_first [of "split l"] py_index_last [of "split l"] by auto
    with sp show ?thesis
      by (simp add: parse_line_def line_entry_def Let_def split_strip strip_empty strip_comment
          is_valid_ip_def)
  qed
qed

lemma parse_loop_entries:
  "parse_loop accepts hosts ls =
     (dict_update hosts (List.map_filter (line_entry accepts) ls), None)"
proof (induction ls arbitrary: hosts)
  case Nil
  then show ?case by (simp add: dict_update_def)
next
  case (Cons l ls)
  then show ?case
    by (cases "line_entry accepts l")
       (auto simp: parse_line_entry dict_update_def)
qed

lemma dict_get_dict_update:
  "dict_get (dict_update base other) k =
     (case map_of (rev other) k of None \<Rightarrow> dict_get base k | Some v \<Rightarrow> Some v)"
proof (induction other arbitrary: base)
  case Nil
  then show ?case by (simp add: dict_update_def)
next
  case (Cons p other)
  obtain k' v' where p: "p = (k', v')" by (cases p)
  have "dict_update base (p # other) = dict_update (dict_set base k' v') other"
    by (simp add: dict_update_def p)
  then show ?case
    using Cons [of "dict_set base k' v'"]
    by (auto simp: p dict_get_def dict_set_def update_conv' map_add_def split: option.splits)
qed

text \<open>
  Claim C2. For every document the parse raises nothing and returns exactly the table
  obtained by assigning, in the order of the lines, the entry of each line that has one:
  a blank line and a line whose first non-whitespace character is \<open>#\<close> have none; a
  remaining line of at least two whitespace-delimited tokens whose first token the
  validator accepts has the entry keyed by its lowercased last token, holding the first
  token and the family \<open>AF_INET6\<close> exactly when the first token contains a colon; any
  other line has none. A host name is therefore looked up to the entry of the last line
  that names it.
\<close>

theorem parse_correct:
  "parse accepts document = (dict_update [] (spec_entries accepts document), None) \<and>
   dict_get (fst (parse accepts document)) host = map_of (rev (spec_entries accepts document)) host"
proof -
  have "dict_get [] host = None" by (simp add: dict_get_def)
  then show ?thesis
    by (simp add: parse_def spec_entries_def parse_loop_entries dict_get_dict_update
        split: option.splits)
qed

subsection \<open>Fetching and probing\<close>

lemma parse_never_raises: "snd (parse_loop accepts hosts ls) = None"
  by (simp add: parse_loop_entries)

lemma gh_load_hosts_eq:
  "gh_load_hosts e url st =
     (length (heap st),
      st\<lparr>heap := heap st @ [fetched e (clock st) url],
         log := log st @ (case fetch_failure e (clock st) url of
                            None \<Rightarrow> [] | Some c \<Rightarrow> [FetchFailed url c]),
         clock := Suc (clock st),
         requests := requests st @ [(GET, url)]\<rparr>)"
proof (cases "http_get e (clock st) url")
  case (Raised c)
  then show ?thesis
    by (simp add: gh_load_hosts_def alloc_def requests_get_def logger_def fetched_def
        fetch_failure_def)
next
  case (Response status body)
  obtain t where t: "parse_loop (ip_accepts e) [] (splitlines body) = (t, None)"
    using parse_never_raises [of "ip_accepts e" "[]" "splitlines body"]
    by (cases "parse_loop (ip_accepts e) [] (splitlines body)") auto
  with Response show ?thesis
    by (simp add: gh_load_hosts_def alloc_def requests_get_def logger_def fetched_def
        fetch_failure_def deref_def store_def parse_def)
qed

lemma v2_load_hosts_eq:
  "v2_load_hosts e url st =
     (case fetch_failure e (clock st) url of
        None \<Rightarrow>
          (length (heap st),
           st\<lparr>heap := heap st @ [fetched e (clock st) url],
              log := log st @ [Loaded (length (fetched e (clock st) url)) url],
              clock := Suc (clock st),
              requests := requests st @ [(GET, url)]\<rparr>)
      | Some c \<Rightarrow>
          (Suc (length (heap st)),
           st\<lparr>heap := heap st @ [[], []],
              log := log st @ [FetchFailed url c],
              clock := Suc (clock st),
              requests := requests st @ [(GET, url)]\<rparr>))"
proof (cases "http_get e (clock st) url")
  case (Raised c)
  then show ?thesis
    by (simp add: v2_load_hosts_def alloc_def requests_get_def logger_def fetched_def
        fetch_failure_def)
next
  case (Response status body)
  obtain t where t: "parse_loop (ip_accepts e) [] (splitlines body) = (t, None)"
    using parse_never_raises [of "ip_accepts e" "[]" "splitlines body"]
    by (cases "parse_loop (ip_accepts e) [] (splitlines body)") auto
  with Response show ?thesis
    by (simp add: v2_load_hosts_def alloc_def requests_get_def logger_def fetched_def
        fetch_failure_def deref_def store_def parse_def)
qed

lemma gh_probe_github_eq:
  "gh_probe_github e st =
     (probe_passes e (clock st) gh_probe_url,
      st\<lparr>log := log st @ [case http_head e (clock st) gh_probe_url of
                            Raised c \<Rightarrow> ProbeFailed gh_probe_url (Transport c)
                          | Response status body \<Rightarrow>
                              if raise_for_status status
                              then ProbeFailed gh_probe_url (HTTPError status)
                              else ProbeOk gh_probe_url],
         clock := Suc (clock st),
         requests := requests st @ [(HEAD, gh_probe_url)]\<rparr>)"
  by (cases "http_head e (clock st) gh_probe_url")
     (simp_all add: gh_probe_github_def requests_head_def logger_def probe_passes_def)

lemma v2_probe_connectivity_eq:
  "v2_probe_connectivity e url st =
     (probe_passes e (clock st) url,
      st\<lparr>log := log st @ [case http_head e (clock st) url of
                            Raised c \<Rightarrow> ProbeFailed url (Transport c)
                          | Response status body \<Rightarrow>
                              if raise_for_status status
                              then ProbeFailed url (HTTPError status)
                              else ProbeOk url],
         clock := Suc (clock st),
         requests := requests st @ [(HEAD, url)]\<rparr>)"
  by (cases "http_head e (clock st) url")
     (simp_all add: v2_probe_connectivity_def requests_head_def logger_def probe_passes_def)

lemma run_getaddrinfo_cong:
  assumes "\<And>r. deref st' r = deref st r"
      and "ORIGINAL_GETADDRINFO st' = ORIGINAL_GETADDRINFO st"
  shows "run_getaddrinfo frames e st' f host prt hs = run_getaddrinfo frames e st f host prt hs"
proof (induction frames arbitrary: f)
  case 0
  show ?case by simp
next
  case (Suc frames)
  show ?case
  proof (cases f)
    case Platform
    then show ?thesis by simp
  next
    case (Patched hosts)
    with Suc assms show ?thesis
      by (cases host) (simp_all split: option.splits)
  qed
qed

lemma config_item_logger [simp]: "config_item (logger ev st) key = config_item st key"
  by (simp add: config_item_def logger_def)

lemma config_item_patch [simp]: "config_item (v2_patch_dns hosts st) key = config_item st key"
  by (simp add: config_item_def v2_patch_dns_def logger_def)

lemma gh_load_hosts_frame:
  assumes "gh_load_hosts e url st = (hosts, st1)"
  shows "hosts = length (heap st)"
    and "heap st1 = heap st @ [deref st1 hosts]"
    and "requests st1 = requests st @ [(GET, url)]"
    and "clock st1 = Suc (clock st)"
    and "getaddrinfo st1 = getaddrinfo st"
    and "ORIGINAL_GETADDRINFO st1 = ORIGINAL_GETADDRINFO st"
    and "RUNTIME_HOSTS st1 = RUNTIME_HOSTS st"
    and "job st1 = job st"
    and "self_config st1 = self_config st"
    and "deref st1 hosts = fetched e (clock st) url"
  using assms by (auto simp: gh_load_hosts_eq deref_def)

lemma v2_load_hosts_frame:
  assumes "v2_load_hosts e url st = (hosts, st1)"
  shows "length (heap st) \<le> hosts"
    and "\<exists>junk. heap st1 = heap st @ replicate junk [] @ [deref st1 hosts]"
    and "hosts = length (heap st1) - 1"
    and "requests st1 = requests st @ [(GET, url)]"
    and "clock st1 = Suc (clock st)"
    and "getaddrinfo st1 = getaddrinfo st"
    and "ORIGINAL_GETADDRINFO st1 = ORIGINAL_GETADDRINFO st"
    and "RUNTIME_HOSTS st1 = RUNTIME_HOSTS st"
    and "job st1 = job st"
    and "self_config st1 = self_config st"
    and "deref st1 hosts = fetched e (clock st) url"
proof -
  show "length (heap st) \<le> hosts" "hosts = length (heap st1) - 1"
    "requests st1 = requests st @ [(GET, url)]" "clock st1 = Suc (clock st)"
    "getaddrinfo st1 = getaddrinfo st" "ORIGINAL_GETADDRINFO st1 = ORIGINAL_GETADDRINFO st"
    "RUNTIME_HOSTS st1 = RUNTIME_HOSTS st" "job st1 = job st" "self_config st1 = self_config st"
    using assms by (auto simp: v2_load_hosts_eq split: option.splits)
  show d: "deref st1 hosts = fetched e (clock st) url"
    using assms
    by (auto simp: v2_load_hosts_eq deref_def nth_append fetched_def fetch_failure_def
        split: option.splits http_result.splits if_splits)
  show "\<exists>junk. heap st1 = heap st @ replicate junk [] @ [deref st1 hosts]"
  proof (cases "fetch_failure e (clock st) url")
    case None
    with assms d have "heap st1 = heap st @ replicate 0 [] @ [deref st1 hosts]"
      by (auto simp: v2_load_hosts_eq)
    then show ?thesis ..
  next
    case (Some c)
    with assms have "heap st1 = heap st @ [[], []]" and "fetched e (clock st) url = []"
      by (auto simp: v2_load_hosts_eq fetched_def fetch_failure_def
          split: http_result.splits if_splits)
    with d have "heap st1 = heap st @ replicate 1 [] @ [deref st1 hosts]" by simp
    then show ?thesis ..
  qed
qed

lemma gh_probe_frame:
  assumes "gh_probe_github e st = (ok, st1)"
  shows "heap st1 = heap st"
    and "requests st1 = requests st @ [(HEAD, gh_probe_url)]"
    and "clock st1 = Suc (clock st)"
    and "getaddrinfo st1 = getaddrinfo st"
    and "ORIGINAL_GETADDRINFO st1 = ORIGINAL_GETADDRINFO st"
    and "RUNTIME_HOSTS st1 = RUNTIME_HOSTS st"
    and "job st1 = job st"
    and "self_config st1 = self_config st"
  using assms by (auto simp: gh_probe_github_eq)

lemma v2_probe_frame:
  assumes "v2_probe_connectivity e url st = (ok, st1)"
  shows "heap st1 = heap st"
    and "requests st1 = requests st @ [(HEAD, url)]"
    and "clock st1 = Suc (clock st)"
    and "getaddrinfo st1 = getaddrinfo st"
    and "ORIGINAL_GETADDRINFO st1 = ORIGINAL_GETADDRINFO st"
    and "RUNTIME_HOSTS st1 = RUNTIME_HOSTS st"
    and "job st1 = job st"
    and "self_config st1 = self_config st"
  using assms by (auto simp: v2_probe_connectivity_eq)

text \<open>
  Claim C1. In a run whose primary fetch returns a table that is not empty and whose
  probe, made after that table has been installed, returns false, the requests of the
  run are the GET of the primary source and the HEAD of the probe and nothing else, and
  at the end the resolver is the patched one over the primary table object, which holds
  what the primary fetch returned. This holds in both variants.
\<close>

theorem gate_honored:
  "(gh_load_hosts e gh_github_url st = (github_hosts, st1) \<and>
    deref st1 github_hosts \<noteq> [] \<and>
    \<not> fst (gh_probe_github e (gh_patch github_hosts st1))
    \<longrightarrow> requests (gh_update_all e st) =
          requests st @ [(GET, gh_github_url), (HEAD, gh_probe_url)] \<and>
        getaddrinfo (gh_update_all e st) = Patched github_hosts \<and>
        deref (gh_update_all e st) github_hosts = deref st1 github_hosts) \<and>
   (config_item st ''github_url'' = Inr github_url \<and>
    config_item st ''probe_url'' = Inr probe_url \<and>
    v2_load_hosts e github_url (logger UpdateStarted st) = (hosts2, st2) \<and>
    deref st2 hosts2 \<noteq> [] \<and>
    \<not> fst (v2_probe_connectivity e probe_url (v2_patch_dns hosts2 st2))
    \<longrightarrow> fst (v2_update_all e st) = None \<and>
        requests (snd (v2_update_all e st)) =
          requests st @ [(GET, github_url), (HEAD, probe_url)] \<and>
        getaddrinfo (snd (v2_update_all e st)) = Patched hosts2 \<and>
        deref (snd (v2_update_all e st)) hosts2 = deref st2 hosts2)"
proof (intro conjI impI)
  assume a: "gh_load_hosts e gh_github_url st = (github_hosts, st1) \<and>
    deref st1 github_hosts \<noteq> [] \<and> \<not> fst (gh_probe_github e (gh_patch github_hosts st1))"
  obtain ok st3 where p: "gh_probe_github e (gh_patch github_hosts st1) = (ok, st3)"
    by (cases "gh_probe_github e (gh_patch github_hosts st1)")
  with a have run: "gh_update_all e st = logger GateClosed st3"
    by (simp add: gh_update_all_def)
  note f = gh_load_hosts_frame [of e gh_github_url st github_hosts st1]
  note g = gh_probe_frame [OF p]
  show "requests (gh_update_all e st) = requests st @ [(GET, gh_github_url), (HEAD, gh_probe_url)]"
    using a f(3) g(2) by (simp add: run logger_def gh_patch_def)
  show "getaddrinfo (gh_update_all e st) = Patched github_hosts"
    using g(4) by (simp add: run logger_def gh_patch_def)
  show "deref (gh_update_all e st) github_hosts = deref st1 github_hosts"
    using g(1) by (simp add: run logger_def gh_patch_def deref_def)
next
  assume a: "config_item st ''github_url'' = Inr github_url \<and>
    config_item st ''probe_url'' = Inr probe_url \<and>
    v2_load_hosts e github_url (logger UpdateStarted st) = (hosts2, st2) \<and>
    deref st2 hosts2 \<noteq> [] \<and>
    \<not> fst (v2_probe_connectivity e probe_url (v2_patch_dns hosts2 st2))"
  obtain ok st3 where p: "v2_probe_connectivity e probe_url (v2_patch_dns hosts2 st2) = (ok, st3)"
    by (cases "v2_probe_connectivity e probe_url (v2_patch_dns hosts2 st2)")
  note f = v2_load_hosts_frame [of e github_url "logger UpdateStarted st" hosts2 st2]
  have c2: "config_item st2 ''probe_url'' = Inr probe_url"
    using a f(10) by (simp add: config_item_def logger_def)
  from a p c2 have run: "v2_update_all e st = (None, logger GateClosed st3)"
    by (simp add: v2_update_all_def)
  note g = v2_probe_frame [OF p]
  show "fst (v2_update_all e st) = None" by (simp add: run)
  show "requests (snd (v2_update_all e st)) = requests st @ [(GET, github_url), (HEAD, probe_url)]"
    using a f(4) g(2) by (simp add: run logger_def v2_patch_dns_def)
  show "getaddrinfo (snd (v2_update_all e st)) = Patched hosts2"
    using g(4) by (simp add: run logger_def v2_patch_dns_def)
  show "deref (snd (v2_update_all e st)) hosts2 = deref st2 hosts2"
    using g(1) by (simp add: run logger_def v2_patch_dns_def deref_def)
qed

lemma deref_append_empties:
  assumes "heap st' = heap st @ replicate n []"
  shows "deref st' r = deref st r"
  using assms by (auto simp: deref_def nth_append)

lemma socket_getaddrinfo_cong:
  assumes "\<And>r. deref st' r = deref st r"
      and "ORIGINAL_GETADDRINFO st' = ORIGINAL_GETADDRINFO st"
      and "getaddrinfo st' = getaddrinfo st"
  shows "socket_getaddrinfo frames e st' host prt hs = socket_getaddrinfo frames e st host prt hs"
  using assms run_getaddrinfo_cong [of st' st frames e "getaddrinfo st" host prt hs]
  by (simp add: socket_getaddrinfo_def)

text \<open>
  Claim C5. In a run whose primary fetch returns the empty table, the run ends without
  installing anything: \<open>socket.getaddrinfo\<close>, \<open>_ORIGINAL_GETADDRINFO\<close>,
  \<open>_RUNTIME_HOSTS\<close>, the scheduled job and every table are as before, so every
  resolution gives what it gave before; the one request of the run is the GET of the
  primary source (no retry), and the last line logged is the failure reason. This holds
  in both variants.
\<close>

theorem empty_primary_aborts:
  "(gh_load_hosts e gh_github_url st = (github_hosts, st1) \<and> deref st1 github_hosts = []
    \<longrightarrow> getaddrinfo (gh_update_all e st) = getaddrinfo st \<and>
        ORIGINAL_GETADDRINFO (gh_update_all e st) = ORIGINAL_GETADDRINFO st \<and>
        RUNTIME_HOSTS (gh_update_all e st) = RUNTIME_HOSTS st \<and>
        job (gh_update_all e st) = job st \<and>
        (\<forall>r. deref (gh_update_all e st) r = deref st r) \<and>
        (\<forall>frames host prt hs.
           socket_getaddrinfo frames e (gh_update_all e st) host prt hs =
           socket_getaddrinfo frames e st host prt hs) \<and>
        requests (gh_update_all e st) = requests st @ [(GET, gh_github_url)] \<and>
        last (log (gh_update_all e st)) = PrimaryEmpty) \<and>
   (config_item st ''github_url'' = Inr github_url \<and>
    v2_load_hosts e github_url (logger UpdateStarted st) = (hosts2, st2) \<and>
    deref st2 hosts2 = []
    \<longrightarrow> fst (v2_update_all e st) = None \<and>
        getaddrinfo (snd (v2_update_all e st)) = getaddrinfo st \<and>
        ORIGINAL_GETADDRINFO (snd (v2_update_all e st)) = ORIGINAL_GETADDRINFO st \<and>
        RUNTIME_HOSTS (snd (v2_update_all e st)) = RUNTIME_HOSTS st \<and>
        job (snd (v2_update_all e st)) = job st \<and>
        (\<forall>r. deref (snd (v2_update_all e st)) r = deref st r) \<and>
        (\<forall>frames host prt hs.
           socket_getaddrinfo frames e (snd (v2_update_all e st)) host prt hs =
           socket_getaddrinfo frames e st host prt hs) \<and>
        requests (snd (v2_update_all e st)) = requests st @ [(GET, github_url)] \<and>
        last (log (snd (v2_update_all e st))) = PrimaryEmpty)"
proof (intro conjI impI)
  assume a: "gh_load_hosts e gh_github_url st = (github_hosts, st1) \<and> deref st1 github_hosts = []"
  then have run: "gh_update_all e st = logger PrimaryEmpty st1"
    by (simp add: gh_update_all_def)
  note f = gh_load_hosts_frame [of e gh_github_url st github_hosts st1]
  from a f(2) have "heap (gh_update_all e st) = heap st @ replicate 1 []"
    by (simp add: run logger_def)
  then have d: "deref (gh_update_all e st) r = deref st r" for r
    by (rule deref_append_empties)
  show g: "getaddrinfo (gh_update_all e st) = getaddrinfo st"
    using a f(5) by (simp add: run logger_def)
  show o: "ORIGINAL_GETADDRINFO (gh_update_all e st) = ORIGINAL_GETADDRINFO st"
    using a f(6) by (simp add: run logger_def)
  show "RUNTIME_HOSTS (gh_update_all e st) = RUNTIME_HOSTS st"
    using a f(7) by (simp add: run logger_def)
  show "job (gh_update_all e st) = job st"
    using a f(8) by (simp add: run logger_def)
  show "\<forall>r. deref (gh_update_all e st) r = deref st r" using d by simp
  show "\<forall>frames host prt hs.
           socket_getaddrinfo frames e (gh_update_all e st) host prt hs =
           socket_getaddrinfo frames e st host prt hs"
    using socket_getaddrinfo_cong [OF d o g] by simp
  show "requests (gh_update_all e st) = requests st @ [(GET, gh_github_url)]"
    using a f(3) by (simp add: run logger_def)
  show "last (log (gh_update_all e st)) = PrimaryEmpty"
    by (simp add: run logger_def)
next
  assume a: "config_item st ''github_url'' = Inr github_url \<and>
    v2_load_hosts e github_url (logger UpdateStarted st) = (hosts2, st2) \<and> deref st2 hosts2 = []"
  then have run: "v2_update_all e st = (None, logger PrimaryEmpty st2)"
    by (simp add: v2_update_all_def)
  note f = v2_load_hosts_frame [of e github_url "logger UpdateStarted st" hosts2 st2]
  from a f(2) obtain junk where "heap st2 = heap st @ replicate junk [] @ [[]]"
    by (auto simp: logger_def)
  then have "heap (snd (v2_update_all e st)) = heap st @ replicate (Suc junk) []"
    by (simp add: run logger_def replicate_append_same)
  then have d: "deref (snd (v2_update_all e st)) r = deref st r" for r
    by (rule deref_append_empties)
  show "fst (v2_update_all e st) = None" by (simp add: run)
  show g: "getaddrinfo (snd (v2_update_all e st)) = getaddrinfo st"
    using a f(6) by (simp add: run logger_def)
  show o: "ORIGINAL_GETADDRINFO (snd (v2_update_all e st)) = ORIGINAL_GETADDRINFO st"
    using a f(7) by (simp add: run logger_def)
  show "RUNTIME_HOSTS (snd (v2_update_all e st)) = RUNTIME_HOSTS st"
    using a f(8) by (simp add: run logger_def)
  show "job (snd (v2_update_all e st)) = job st"
    using a f(9) by (simp add: run logger_def)
  show "\<forall>r. deref (snd (v2_update_all e st)) r = deref st r" using d by simp
  show "\<forall>frames host prt hs.
           socket_getaddrinfo frames e (snd (v2_update_all e st)) host prt hs =
           socket_getaddrinfo frames e st host prt hs"
    using socket_getaddrinfo_cong [OF d o g] by simp
  show "requests (snd (v2_update_all e st)) = requests st @ [(GET, github_url)]"
    using a f(4) by (simp add: run logger_def)
  show "last (log (snd (v2_update_all e st))) = PrimaryEmpty"
    by (simp add: run logger_def)
qed

lemmas text_defs = isspace_def is_linebreak_def lower_def lower_char_def upper_letters_def
  lower_letters_def strip_def startswith_def split_def splitlines_def

lemma parse_primary: "parse scenario_accepts primary_document = (primary_table, None)"
  by (simp add: parse_def primary_document_def primary_table_def parse_line_def text_defs
      py_index_def is_valid_ip_def scenario_accepts_def dict_set_def)

lemma fetched_gated [simp]:
  "fetched gated_world t ''https://raw.hellogithub.com/hosts'' = primary_table"
  "fetch_failure gated_world t ''https://raw.hellogithub.com/hosts'' = None"
  "probe_passes gated_world t url = False"
  by (simp_all add: fetched_def fetch_failure_def probe_passes_def gated_world_def world_def
      primary_only_def raise_for_status_def parse_primary)

lemma fetched_offline [simp]:
  "fetched offline_world t url = []"
  "fetch_failure offline_world t url = Some (Transport ''connection refused'')"
  "probe_passes offline_world t url = False"
  by (simp_all add: fetched_def fetch_failure_def probe_passes_def offline_world_def world_def)

lemma primary_table_nonempty [simp]: "primary_table \<noteq> []"
  by (simp add: primary_table_def)

lemma module_loaded_sel [simp]:
  "heap module_loaded = [[]]" "getaddrinfo module_loaded = Platform"
  "ORIGINAL_GETADDRINFO module_loaded = Platform" "RUNTIME_HOSTS module_loaded = 0"
  "self_config module_loaded = DEFAULT_CONFIG" "job module_loaded = None"
  "log module_loaded = []" "clock module_loaded = 0" "requests module_loaded = []"
  by (simp_all add: module_loaded_def)

lemma default_urls [simp]:
  "config_item module_loaded ''github_url'' = Inr gh_github_url"
  "config_item module_loaded ''probe_url'' = Inr ''https://api.github.com''"
  by (simp_all add: config_item_def DEFAULT_CONFIG_def gh_github_url_def)

theorem gate_honored_witness:
  "deref (snd (gh_load_hosts gated_world gh_github_url module_loaded))
         (fst (gh_load_hosts gated_world gh_github_url module_loaded)) \<noteq> [] \<and>
   \<not> fst (gh_probe_github gated_world
            (gh_patch (fst (gh_load_hosts gated_world gh_github_url module_loaded))
                      (snd (gh_load_hosts gated_world gh_github_url module_loaded)))) \<and>
   requests (gh_update_all gated_world module_loaded) =
     [(GET, gh_github_url), (HEAD, gh_probe_url)] \<and>
   getaddrinfo (gh_update_all gated_world module_loaded) = Patched 1 \<and>
   deref (gh_update_all gated_world module_loaded) 1 = primary_table \<and>
   config_item module_loaded ''github_url'' = Inr gh_github_url \<and>
   config_item module_loaded ''probe_url'' = Inr ''https://api.github.com'' \<and>
   deref (snd (v2_load_hosts gated_world gh_github_url (logger UpdateStarted module_loaded)))
         (fst (v2_load_hosts gated_world gh_github_url (logger UpdateStarted module_loaded))) \<noteq> [] \<and>
   \<not> fst (v2_probe_connectivity gated_world ''https://api.github.com''
            (v2_patch_dns
               (fst (v2_load_hosts gated_world gh_github_url (logger UpdateStarted module_loaded)))
               (snd (v2_load_hosts gated_world gh_github_url (logger UpdateStarted module_loaded))))) \<and>
   fst (v2_update_all gated_world module_loaded) = None \<and>
   requests (snd (v2_update_all gated_world module_loaded)) =
     [(GET, gh_github_url), (HEAD, ''https://api.github.com'')] \<and>
   getaddrinfo (snd (v2_update_all gated_world module_loaded)) = Patched 1 \<and>
   deref (snd (v2_update_all gated_world module_loaded)) 1 = primary_table"
proof -
  have l1: "gh_load_hosts gated_world gh_github_url module_loaded =
              (1, module_loaded\<lparr>heap := [[], primary_table], clock := 1,
                                requests := [(GET, gh_github_url)]\<rparr>)"
    by (simp add: gh_load_hosts_eq gh_github_url_def)
  have l2: "v2_load_hosts gated_world gh_github_url (logger UpdateStarted module_loaded) =
              (1, module_loaded\<lparr>heap := [[], primary_table],
                                log := [UpdateStarted, Loaded 2 gh_github_url], clock := 1,
                                requests := [(GET, gh_github_url)]\<rparr>)"
    by (simp add: v2_load_hosts_eq gh_github_url_def logger_def primary_table_def)
  have h1: "deref (snd (gh_load_hosts gated_world gh_github_url module_loaded))
         (fst (gh_load_hosts gated_world gh_github_url module_loaded)) = primary_table"
    by (simp add: l1 deref_def)
  have h2: "\<not> fst (gh_probe_github gated_world
            (gh_patch (fst (gh_load_hosts gated_world gh_github_url module_loaded))
                      (snd (gh_load_hosts gated_world gh_github_url module_loaded))))"
    by (simp add: gh_probe_github_eq)
  have h3: "deref (snd (v2_load_hosts gated_world gh_github_url (logger UpdateStarted module_loaded)))
         (fst (v2_load_hosts gated_world gh_github_url (logger UpdateStarted module_loaded))) = primary_table"
    by (simp add: l2 deref_def)
  have h4: "\<not> fst (v2_probe_connectivity gated_world ''https://api.github.com''
            (v2_patch_dns
               (fst (v2_load_hosts gated_world gh_github_url (logger UpdateStarted module_loaded)))
               (snd (v2_load_hosts gated_world gh_github_url (logger UpdateStarted module_loaded)))))"
    by (simp add: v2_probe_connectivity_eq)
  show ?thesis
    using gate_honored [of gated_world module_loaded
        "fst (gh_load_hosts gated_world gh_github_url module_loaded)"
        "snd (gh_load_hosts gated_world gh_github_url module_loaded)"
        gh_github_url "''https://api.github.com''"
        "fst (v2_load_hosts gated_world gh_github_url (logger UpdateStarted module_loaded))"
        "snd (v2_load_hosts gated_world gh_github_url (logger UpdateStarted module_loaded))"]
      h1 h2 h3 h4
    by (simp add: l1 l2)
qed

theorem empty_primary_aborts_witness:
  "deref (snd (gh_load_hosts offline_world gh_github_url module_loaded))
         (fst (gh_load_hosts offline_world gh_github_url module_loaded)) = [] \<and>
   getaddrinfo (gh_update_all offline_world module_loaded) = Platform \<and>
   RUNTIME_HOSTS (gh_update_all offline_world module_loaded) = 0 \<and>
   job (gh_update_all offline_world module_loaded) = None \<and>
   requests (gh_update_all offline_world module_loaded) = [(GET, gh_github_url)] \<and>
   last (log (gh_update_all offline_world module_loaded)) = PrimaryEmpty \<and>
   config_item module_loaded ''github_url'' = Inr gh_github_url \<and>
   deref (snd (v2_load_hosts offline_world gh_github_url (logger UpdateStarted module_loaded)))
         (fst (v2_load_hosts offline_world gh_github_url (logger UpdateStarted module_loaded))) = [] \<and>
   fst (v2_update_all offline_world module_loaded) = None \<and>
   getaddrinfo (snd (v2_update_all offline_world module_loaded)) = Platform \<and>
   RUNTIME_HOSTS (snd (v2_update_all offline_world module_loaded)) = 0 \<and>
   job (snd (v2_update_all offline_world module_loaded)) = None \<and>
   requests (snd (v2_update_all offline_world module_loaded)) = [(GET, gh_github_url)] \<and>
   last (log (snd (v2_update_all offline_world module_loaded))) = PrimaryEmpty"
proof -
  have h1: "deref (snd (gh_load_hosts offline_world gh_github_url module_loaded))
         (fst (gh_load_hosts offline_world gh_github_url module_loaded)) = []"
    by (simp add: gh_load_hosts_eq deref_def)
  have h2: "deref (snd (v2_load_hosts offline_world gh_github_url (logger UpdateStarted module_loaded)))
         (fst (v2_load_hosts offline_world gh_github_url (logger UpdateStarted module_loaded))) = []"
    by (simp add: v2_load_hosts_eq deref_def logger_def)
  show ?thesis
    using empty_primary_aborts [of offline_world module_loaded
        "fst (gh_load_hosts offline_world gh_github_url module_loaded)"
        "snd (gh_load_hosts offline_world gh_github_url module_loaded)"
        gh_github_url
        "fst (v2_load_hosts offline_world gh_github_url (logger UpdateStarted module_loaded))"
        "snd (v2_load_hosts offline_world gh_github_url (logger UpdateStarted module_loaded))"]
      h1 h2
    by simp
qed

subsection \<open>The patched resolver\<close>

lemma gated_world_sel [simp]:
  "http_head gated_world t url = Raised ''timed out''"
  "platform_getaddrinfo gated_world host prt hs = Inr platform_answer"
  by (simp_all add: gated_world_def world_def)

lemma gh_gated_run:
  "gh_update_all gated_world module_loaded =
     \<lparr>heap = [[], primary_table], getaddrinfo = Patched 1, ORIGINAL_GETADDRINFO = Platform,
      RUNTIME_HOSTS = 0, self_config = DEFAULT_CONFIG, job = None,
      log = [ProbeFailed gh_probe_url (Transport ''timed out''), GateClosed],
      clock = 2, requests = [(GET, gh_github_url), (HEAD, gh_probe_url)]\<rparr>"
  by (simp add: gh_update_all_def gh_load_hosts_eq gh_probe_github_eq gh_github_url_def
      deref_def gh_patch_def logger_def module_loaded_def Let_def)

lemma v2_gated_run:
  "v2_update_all gated_world module_loaded =
     (None,
      \<lparr>heap = [[], primary_table], getaddrinfo = Patched 1, ORIGINAL_GETADDRINFO = Platform,
       RUNTIME_HOSTS = 0, self_config = DEFAULT_CONFIG, job = None,
       log = [UpdateStarted, Loaded 2 gh_github_url, DnsPatched,
              ProbeFailed ''https://api.github.com'' (Transport ''timed out''), GateClosed],
       clock = 2, requests = [(GET, gh_github_url), (HEAD, ''https://api.github.com'')]\<rparr>)"
  by (simp add: v2_update_all_def v2_load_hosts_eq v2_probe_connectivity_eq gh_github_url_def
      deref_def v2_patch_dns_def logger_def module_loaded_def Let_def
      config_item_def DEFAULT_CONFIG_def primary_table_def)

lemma lower_examples:
  "lower ''GitHub.COM'' = ''github.com''"
  "lower ''github.com'' = ''github.com''"
  "lower ''example.org'' = ''example.org''"
  by (simp_all add: lower_def lower_char_def upper_letters_def lower_letters_def)

text \<open>
  Claim C9. When the installed resolver is a patched one and its table holds the
  lowercased host name, a call with at least one stack frame left returns the single
  tuple \<open>(family, SOCK_STREAM, 0, "", (address, port))\<close> built from the stored entry
  and the port as passed, whatever the hints of the caller are.
\<close>

theorem hit_result:
  "getaddrinfo st = Patched hosts \<and> dict_get (deref st hosts) (lower h) = Some (ip, fam)
   \<longrightarrow> socket_getaddrinfo (Suc frames) e st (HostName h) prt hs =
         Inr [(fam, SOCK_STREAM, 0, [], Sockaddr2 ip prt)]"
  by (simp add: socket_getaddrinfo_def)

theorem hit_result_witness:
  "getaddrinfo (gh_update_all gated_world module_loaded) = Patched 1 \<and>
   dict_get (deref (gh_update_all gated_world module_loaded) 1) (lower ''GitHub.COM'') =
     Some (''140.82.112.3'', AF_INET) \<and>
   hint_type datagram_hints = Some SOCK_DGRAM \<and>
   socket_getaddrinfo (Suc 0) gated_world (gh_update_all gated_world module_loaded)
     (HostName ''GitHub.COM'') (PortInt 443) datagram_hints =
     Inr [(AF_INET, SOCK_STREAM, 0, [], Sockaddr2 ''140.82.112.3'' (PortInt 443))]"
  using hit_result [of "gh_update_all gated_world module_loaded" 1 "''GitHub.COM''"
      "''140.82.112.3''" AF_INET 0 gated_world "PortInt 443" datagram_hints]
  by (simp add: gh_gated_run deref_def dict_get_def primary_table_def lower_examples
      datagram_hints_def)

lemma miss_delegates:
  assumes "getaddrinfo st = Patched hosts"
      and "ORIGINAL_GETADDRINFO st = Platform"
      and "dict_get (deref st hosts) (lower h) = None"
  shows "socket_getaddrinfo (Suc (Suc frames)) e st (HostName h) prt hs =
           platform_getaddrinfo e (HostName h) prt hs"
  using assms by (simp add: socket_getaddrinfo_def)

lemma miss_recurses:
  assumes "ORIGINAL_GETADDRINFO st = Patched hosts"
      and "dict_get (deref st hosts) (lower h) = None"
  shows "run_getaddrinfo frames e st (Patched hosts) (HostName h) prt hs = Inl RecursionError"
  using assms by (induction frames) simp_all

lemma v2_gated_init:
  "v2_init_plugin gated_world None module_loaded =
     (None,
      \<lparr>heap = [[], primary_table], getaddrinfo = Patched 1, ORIGINAL_GETADDRINFO = Patched 1,
       RUNTIME_HOSTS = 0, self_config = DEFAULT_CONFIG, job = Some (4, None),
       log = [UpdateStarted, Loaded 2 gh_github_url, DnsPatched,
              ProbeFailed ''https://api.github.com'' (Transport ''timed out''), GateClosed,
              Enabled, JobRegistered 4, InitDone],
       clock = 2, requests = [(GET, gh_github_url), (HEAD, ''https://api.github.com'')]\<rparr>)"
proof -
  have m: "module_loaded\<lparr>self_config := DEFAULT_CONFIG\<rparr> = module_loaded"
    by (simp add: module_loaded_def)
  have c: "cfg_enable DEFAULT_CONFIG = Some True" "cfg_update_hour DEFAULT_CONFIG = Some 4"
    by (simp_all add: DEFAULT_CONFIG_def)
  have en: "v2_enable gated_world module_loaded =
     (None,
      \<lparr>heap = [[], primary_table], getaddrinfo = Patched 1, ORIGINAL_GETADDRINFO = Patched 1,
       RUNTIME_HOSTS = 0, self_config = DEFAULT_CONFIG, job = None,
       log = [UpdateStarted, Loaded 2 gh_github_url, DnsPatched,
              ProbeFailed ''https://api.github.com'' (Transport ''timed out''), GateClosed,
              Enabled],
       clock = 2, requests = [(GET, gh_github_url), (HEAD, ''https://api.github.com'')]\<rparr>)"
    by (simp add: v2_enable_def v2_gated_run logger_def)
  show ?thesis
    by (simp add: v2_init_plugin_def m c en config_enabled_def v2_register_job_def
        host_remove_job_def logger_def Let_def)
qed

text \<open>
  Claim C4 at its failing input, second variant: the module is loaded, \<open>init_plugin\<close>
  runs with the default configuration, the primary source answers (Scenario C), and
  \<open>example.org\<close>, which the table does not hold, is resolved. \<open>_enable\<close> has stored the
  patched function in \<open>_ORIGINAL_GETADDRINFO\<close>, so the miss calls the patched function
  again until the stack is exhausted; the platform resolver, which has an answer, is
  never asked.
\<close>

theorem v2_miss_never_delegates:
  "fst (v2_init_plugin gated_world None module_loaded) = None \<and>
   socket_getaddrinfo frames gated_world (snd (v2_init_plugin gated_world None module_loaded))
     (HostName ''example.org'') (PortInt 443) no_hints = Inl RecursionError \<and>
   platform_getaddrinfo gated_world (HostName ''example.org'') (PortInt 443) no_hints =
     Inr platform_answer"
proof -
  have "dict_get primary_table (lower ''example.org'') = None"
    by (simp add: dict_get_def primary_table_def lower_examples)
  then have "run_getaddrinfo frames gated_world (snd (v2_init_plugin gated_world None module_loaded))
     (Patched 1) (HostName ''example.org'') (PortInt 443) no_hints = Inl RecursionError"
    by (intro miss_recurses) (simp_all add: v2_gated_init deref_def)
  then show ?thesis
    by (simp add: socket_getaddrinfo_def v2_gated_init)
qed

text \<open>
  Claim C6 at its failing input, second variant: after the same \<open>init_plugin\<close>,
  \<open>_disable\<close> assigns \<open>_ORIGINAL_GETADDRINFO\<close>, which holds the patched function, to
  \<open>socket.getaddrinfo\<close>: the resolver is still the patched one and \<open>github.com\<close> still
  resolves to the override.
\<close>

theorem v2_disable_leaves_patch:
  "getaddrinfo (v2_disable (snd (v2_init_plugin gated_world None module_loaded))) = Patched 1 \<and>
   socket_getaddrinfo (Suc frames) gated_world
     (v2_disable (snd (v2_init_plugin gated_world None module_loaded)))
     (HostName ''github.com'') (PortInt 443) no_hints =
     Inr [(AF_INET, SOCK_STREAM, 0, [], Sockaddr2 ''140.82.112.3'' (PortInt 443))]"
  by (simp add: v2_gated_init v2_disable_def store_def logger_def socket_getaddrinfo_def
      deref_def dict_get_def primary_table_def lower_examples)

subsection \<open>Merging tables\<close>

lemma map_of_rev_distinct: "distinct (map fst xs) \<Longrightarrow> map_of (rev xs) = map_of xs"
proof (induction xs)
  case Nil
  show ?case by simp
next
  case (Cons p xs)
  obtain k v where p: "p = (k, v)" by (cases p)
  from Cons.prems p have notin: "k \<notin> fst ` set xs" by simp
  then have "map_of xs k = None" by (simp add: map_of_eq_None_iff)
  moreover from Cons have "map_of (rev xs) = map_of xs" by simp
  ultimately show ?case
    by (auto simp: p map_add_def fun_eq_iff split: option.splits)
qed

lemma dict_update_distinct:
  "distinct (map fst base) \<Longrightarrow> distinct (map fst (dict_update base other))"
proof (induction other arbitrary: base)
  case Nil
  then show ?case by (simp add: dict_update_def)
next
  case (Cons p other)
  obtain k v where p: "p = (k, v)" by (cases p)
  have "dict_update base (p # other) = dict_update (dict_set base k v) other"
    by (simp add: dict_update_def p)
  moreover have "distinct (map fst (dict_set base k v))"
    using Cons.prems by (simp add: dict_set_def distinct_update)
  ultimately show ?case using Cons.IH by simp
qed

lemma parse_distinct: "distinct (map fst (fst (parse accepts document)))"
  using dict_update_distinct [of "[]" "List.map_filter (line_entry accepts) (splitlines document)"]
  by (simp add: parse_def parse_loop_entries)

lemma dict_get_merge:
  assumes "distinct (map fst other)"
  shows "dict_get (dict_update base other) k =
           (case dict_get other k of None \<Rightarrow> dict_get base k | Some v \<Rightarrow> Some v)"
proof -
  have "dict_get other k = map_of other k" by (simp add: dict_get_def)
  with assms show ?thesis by (simp add: dict_get_dict_update map_of_rev_distinct)
qed

lemma dict_get_copy:
  assumes "distinct (map fst base)"
  shows "dict_get (dict_update [] base) k = dict_get base k"
proof -
  have "dict_get [] k = None" by (simp add: dict_get_def)
  with assms show ?thesis by (simp add: dict_get_merge split: option.splits)
qed

lemma deref_store: "deref (store r d st) q = (if q = r \<and> r < length (heap st) then d else deref st q)"
  by (simp add: deref_def store_def)

lemma deref_alloc:
  "deref (snd (alloc d st)) q = (if q = length (heap st) then d else deref st q)"
  by (auto simp: deref_def alloc_def nth_append)

text \<open>
  Claim C3, as the code has it. For table objects \<open>base\<close> and \<open>overlay\<close> with unique
  keys, both ways of merging give the union in which the entry of \<open>overlay\<close> wins for a
  key of both and the keys of one side only keep their entry, and both leave \<open>overlay\<close>
  as it was. \<open>{**base, **overlay}\<close> returns a new object and leaves \<open>base\<close> as it was;
  \<open>base.update(overlay)\<close> returns nothing and writes the union into \<open>base\<close>, leaving
  every other object as it was.
\<close>

theorem merge_right_biased:
  "base < length (heap st) \<and> overlay < length (heap st) \<and>
   distinct (map fst (deref st base)) \<and> distinct (map fst (deref st overlay))
   \<longrightarrow> dict_get (deref (update_in_place base overlay st) base) k =
         (case dict_get (deref st overlay) k of
            None \<Rightarrow> dict_get (deref st base) k | Some v \<Rightarrow> Some v) \<and>
       (\<forall>r. r \<noteq> base \<longrightarrow> deref (update_in_place base overlay st) r = deref st r) \<and>
       fst (unpack_merge base overlay st) = length (heap st) \<and>
       dict_get (deref (snd (unpack_merge base overlay st)) (fst (unpack_merge base overlay st))) k =
         (case dict_get (deref st overlay) k of
            None \<Rightarrow> dict_get (deref st base) k | Some v \<Rightarrow> Some v) \<and>
       deref (snd (unpack_merge base overlay st)) base = deref st base \<and>
       deref (snd (unpack_merge base overlay st)) overlay = deref st overlay"
proof (intro impI)
  assume a: "base < length (heap st) \<and> overlay < length (heap st) \<and>
   distinct (map fst (deref st base)) \<and> distinct (map fst (deref st overlay))"
  have 1: "dict_get (deref (update_in_place base overlay st) base) k =
         (case dict_get (deref st overlay) k of
            None \<Rightarrow> dict_get (deref st base) k | Some v \<Rightarrow> Some v)"
    using a by (simp add: update_in_place_def deref_store dict_get_merge)
  have 2: "\<forall>r. r \<noteq> base \<longrightarrow> deref (update_in_place base overlay st) r = deref st r"
    by (simp add: update_in_place_def deref_store)
  have 3: "fst (unpack_merge base overlay st) = length (heap st)"
    by (simp add: unpack_merge_def alloc_def)
  have copy: "dict_get (dict_update [] (deref st base)) k = dict_get (deref st base) k"
    using a by (simp add: dict_get_copy)
  have res: "deref (snd (unpack_merge base overlay st)) (fst (unpack_merge base overlay st)) =
               dict_update (dict_update [] (deref st base)) (deref st overlay)"
    by (simp add: unpack_merge_def alloc_def deref_def)
  have 4: "dict_get (deref (snd (unpack_merge base overlay st))
                  (fst (unpack_merge base overlay st))) k =
         (case dict_get (deref st overlay) k of
            None \<Rightarrow> dict_get (deref st base) k | Some v \<Rightarrow> Some v)"
    unfolding res
    using a dict_get_merge [of "deref st overlay" "dict_update [] (deref st base)" k]
    by (simp only: copy)
  have 5: "deref (snd (unpack_merge base overlay st)) base = deref st base"
    and 6: "deref (snd (unpack_merge base overlay st)) overlay = deref st overlay"
    using a by (simp_all add: unpack_merge_def deref_alloc)
  from 1 2 3 4 5 6 show "dict_get (deref (update_in_place base overlay st) base) k =
         (case dict_get (deref st overlay) k of
            None \<Rightarrow> dict_get (deref st base) k | Some v \<Rightarrow> Some v) \<and>
       (\<forall>r. r \<noteq> base \<longrightarrow> deref (update_in_place base overlay st) r = deref st r) \<and>
       fst (unpack_merge base overlay st) = length (heap st) \<and>
       dict_get (deref (snd (unpack_merge base overlay st)) (fst (unpack_merge base overlay st))) k =
         (case dict_get (deref st overlay) k of
            None \<Rightarrow> dict_get (deref st base) k | Some v \<Rightarrow> Some v) \<and>
       deref (snd (unpack_merge base overlay st)) base = deref st base \<and>
       deref (snd (unpack_merge base overlay st)) overlay = deref st overlay"
    by blast
qed

lemma two_tables_sel [simp]:
  "heap two_tables = [[], primary_table, tmdb_table]"
  "deref two_tables (Suc 0) = primary_table"
  "deref two_tables 2 = tmdb_table"
  by (simp_all add: two_tables_def deref_def)

theorem merge_right_biased_witness:
  "(1::nat) < length (heap two_tables) \<and> (2::nat) < length (heap two_tables) \<and>
   distinct (map fst (deref two_tables 1)) \<and> distinct (map fst (deref two_tables 2)) \<and>
   dict_get (deref (update_in_place 1 2 two_tables) 1) ''api.themoviedb.org'' =
     Some (''104.244.42.1'', AF_INET) \<and>
   deref (update_in_place 1 2 two_tables) 2 = tmdb_table \<and>
   fst (unpack_merge 1 2 two_tables) = 3 \<and>
   dict_get (deref (snd (unpack_merge 1 2 two_tables)) 3) ''api.themoviedb.org'' =
     Some (''104.244.42.1'', AF_INET) \<and>
   deref (snd (unpack_merge 1 2 two_tables)) 1 = primary_table \<and>
   deref (snd (unpack_merge 1 2 two_tables)) 2 = tmdb_table"
  using merge_right_biased [of 1 two_tables 2 "''api.themoviedb.org''"]
  by (simp add: primary_table_def tmdb_table_def dict_get_def numeral_3_eq_3
      unpack_merge_def alloc_def deref_def dict_update_def dict_set_def)

text \<open>
  Claim C3 as stated fails on the first variant's \<open>github_hosts.update(tmdb_hosts)\<close>: the
  base object, which held the two entries of the primary table, holds three afterwards.
\<close>

theorem merge_mutates_base:
  "deref two_tables 1 = primary_table \<and>
   deref (update_in_place 1 2 two_tables) 1 = primary_table @ tmdb_table \<and>
   deref (update_in_place 1 2 two_tables) 1 \<noteq> deref two_tables 1"
  by (simp add: update_in_place_def deref_store dict_update_def dict_set_def
      primary_table_def tmdb_table_def)

subsection \<open>What a fetch returns\<close>

text \<open>
  Claim C7, as the code has it. A fetch never raises. When the GET raises (a transport
  failure, a timeout), and when the answer has an error status, 400 to 599, the fetch
  logs a failure naming the URL and the cause and returns an empty table. For any other
  answer it returns the parse of the body and logs no failure. This holds in both
  variants (the second also logs the number of entries loaded).
\<close>

theorem fetch_outcomes:
  "(http_get e (clock st) url = Raised c
    \<longrightarrow> deref (snd (gh_load_hosts e url st)) (fst (gh_load_hosts e url st)) = [] \<and>
        log (snd (gh_load_hosts e url st)) = log st @ [FetchFailed url (Transport c)] \<and>
        deref (snd (v2_load_hosts e url st)) (fst (v2_load_hosts e url st)) = [] \<and>
        log (snd (v2_load_hosts e url st)) = log st @ [FetchFailed url (Transport c)]) \<and>
   (http_get e (clock st) url = Response status body \<and> 400 \<le> status \<and> status < 600
    \<longrightarrow> deref (snd (gh_load_hosts e url st)) (fst (gh_load_hosts e url st)) = [] \<and>
        log (snd (gh_load_hosts e url st)) = log st @ [FetchFailed url (HTTPError status)] \<and>
        deref (snd (v2_load_hosts e url st)) (fst (v2_load_hosts e url st)) = [] \<and>
        log (snd (v2_load_hosts e url st)) = log st @ [FetchFailed url (HTTPError status)]) \<and>
   (http_get e (clock st) url = Response status body \<and> \<not> (400 \<le> status \<and> status < 600)
    \<longrightarrow> deref (snd (gh_load_hosts e url st)) (fst (gh_load_hosts e url st)) =
          fst (parse (ip_accepts e) body) \<and>
        log (snd (gh_load_hosts e url st)) = log st \<and>
        deref (snd (v2_load_hosts e url st)) (fst (v2_load_hosts e url st)) =
          fst (parse (ip_accepts e) body) \<and>
        log (snd (v2_load_hosts e url st)) =
          log st @ [Loaded (length (fst (parse (ip_accepts e) body))) url])"
  by (simp add: gh_load_hosts_eq v2_load_hosts_eq fetched_def fetch_failure_def
      raise_for_status_def deref_def nth_append)

lemma world_get [simp]: "http_get (world get head) t url = get url"
  by (simp add: world_def)

lemma world_accepts [simp]: "ip_accepts (world get head) = scenario_accepts"
  by (simp add: world_def)

lemma parse_single:
  "parse scenario_accepts ''140.82.112.3 github.com'' =
     ([(''github.com'', (''140.82.112.3'', AF_INET))], None)"
  by (simp add: parse_def parse_line_def text_defs py_index_def is_valid_ip_def
      scenario_accepts_def dict_set_def)

theorem fetch_outcomes_witness:
  "http_get offline_world (clock module_loaded) gh_github_url = Raised ''connection refused'' \<and>
   deref (snd (gh_load_hosts offline_world gh_github_url module_loaded))
         (fst (gh_load_hosts offline_world gh_github_url module_loaded)) = [] \<and>
   log (snd (v2_load_hosts offline_world gh_github_url module_loaded)) =
     [FetchFailed gh_github_url (Transport ''connection refused'')] \<and>
   http_get not_found_world (clock module_loaded) gh_github_url = Response 404 ''Not Found'' \<and>
   (400::nat) \<le> 404 \<and> (404::nat) < 600 \<and>
   deref (snd (v2_load_hosts not_found_world gh_github_url module_loaded))
         (fst (v2_load_hosts not_found_world gh_github_url module_loaded)) = [] \<and>
   log (snd (gh_load_hosts not_found_world gh_github_url module_loaded)) =
     [FetchFailed gh_github_url (HTTPError 404)] \<and>
   http_get gated_world (clock module_loaded) gh_github_url = Response 200 primary_document \<and>
   \<not> ((400::nat) \<le> 200 \<and> (200::nat) < 600) \<and>
   deref (snd (gh_load_hosts gated_world gh_github_url module_loaded))
         (fst (gh_load_hosts gated_world gh_github_url module_loaded)) = primary_table \<and>
   log (snd (v2_load_hosts gated_world gh_github_url module_loaded)) =
     [Loaded 2 gh_github_url]"
  using fetch_outcomes [of offline_world module_loaded gh_github_url "''connection refused''"]
    fetch_outcomes [of not_found_world module_loaded gh_github_url _ 404 "''Not Found''"]
    fetch_outcomes [of gated_world module_loaded gh_github_url _ 200 primary_document]
  by (simp add: offline_world_def not_found_world_def gated_world_def primary_only_def
      gh_github_url_def parse_primary primary_table_def)

text \<open>
  Claim C7 as stated fails for a status that is neither a success nor an error: the
  source answers 300 with a hosts document as its body; the fetch returns the parsed
  entry and logs no failure.
\<close>

theorem fetch_status_300:
  "http_get multiple_choices_world (clock module_loaded) gh_github_url =
     Response 300 ''140.82.112.3 github.com'' \<and>
   deref (snd (gh_load_hosts multiple_choices_world gh_github_url module_loaded))
         (fst (gh_load_hosts multiple_choices_world gh_github_url module_loaded)) =
     [(''github.com'', (''140.82.112.3'', AF_INET))] \<and>
   log (snd (gh_load_hosts multiple_choices_world gh_github_url module_loaded)) = [] \<and>
   deref (snd (v2_load_hosts multiple_choices_world gh_github_url module_loaded))
         (fst (v2_load_hosts multiple_choices_world gh_github_url module_loaded)) =
     [(''github.com'', (''140.82.112.3'', AF_INET))] \<and>
   log (snd (v2_load_hosts multiple_choices_world gh_github_url module_loaded)) =
     [Loaded 1 gh_github_url]"
  by (simp add: gh_load_hosts_eq v2_load_hosts_eq fetched_def fetch_failure_def
      raise_for_status_def deref_def multiple_choices_world_def parse_single)

subsection \<open>Disabling\<close>

text \<open>
  Claim C8, as the code has it. In both variants \<open>_disable\<close> run twice ends in the state
  it ends in when run once, the log line of the second run apart; after it
  \<open>socket.getaddrinfo\<close> holds the value of \<open>_ORIGINAL_GETADDRINFO\<close> and the table
  \<open>_RUNTIME_HOSTS\<close> is empty. The first variant's \<open>_disable\<close> also removes the job, and a
  missing job is no error. The second variant's \<open>_disable\<close> leaves the job as it is;
  its \<open>stop_plugin\<close>, which runs \<open>_disable\<close> and then removes the job, is idempotent in
  the same sense and leaves no job.
\<close>

theorem disable_idempotent:
  "gh_disable (gh_disable st) = (gh_disable st)\<lparr>log := log (gh_disable st) @ [Disabled]\<rparr> \<and>
   job (gh_disable st) = None \<and>
   getaddrinfo (gh_disable st) = ORIGINAL_GETADDRINFO st \<and>
   deref (gh_disable st) (RUNTIME_HOSTS (gh_disable st)) = [] \<and>
   v2_disable (v2_disable st) = (v2_disable st)\<lparr>log := log (v2_disable st) @ [Disabled]\<rparr> \<and>
   job (v2_disable st) = job st \<and>
   getaddrinfo (v2_disable st) = ORIGINAL_GETADDRINFO st \<and>
   deref (v2_disable st) (RUNTIME_HOSTS (v2_disable st)) = [] \<and>
   v2_stop_plugin (v2_stop_plugin st) =
     (v2_stop_plugin st)\<lparr>log := log (v2_stop_plugin st) @ [Disabled, Stopped]\<rparr> \<and>
   job (v2_stop_plugin st) = None"
proof -
  have g: "gh_stop_service s = s\<lparr>job := None\<rparr>" for s
    by (cases "job s") (simp_all add: gh_stop_service_def scheduler_remove_job_def)
  show ?thesis
    by (simp add: gh_disable_def v2_disable_def v2_stop_plugin_def g host_remove_job_def
        store_def logger_def deref_def Let_def)
qed

lemma v2_offline_init:
  "v2_init_plugin offline_world None module_loaded =
     (None,
      \<lparr>heap = [[], [], []], getaddrinfo = Platform, ORIGINAL_GETADDRINFO = Platform,
       RUNTIME_HOSTS = 0, self_config = DEFAULT_CONFIG, job = Some (4, None),
       log = [UpdateStarted, FetchFailed gh_github_url (Transport ''connection refused''),
              PrimaryEmpty, Enabled, JobRegistered 4, InitDone],
       clock = 1, requests = [(GET, gh_github_url)]\<rparr>)"
proof -
  have m: "module_loaded\<lparr>self_config := DEFAULT_CONFIG\<rparr> = module_loaded"
    by (simp add: module_loaded_def)
  have c: "cfg_enable DEFAULT_CONFIG = Some True" "cfg_update_hour DEFAULT_CONFIG = Some 4"
    by (simp_all add: DEFAULT_CONFIG_def)
  have up: "v2_update_all offline_world module_loaded =
     (None,
      \<lparr>heap = [[], [], []], getaddrinfo = Platform, ORIGINAL_GETADDRINFO = Platform,
       RUNTIME_HOSTS = 0, self_config = DEFAULT_CONFIG, job = None,
       log = [UpdateStarted, FetchFailed gh_github_url (Transport ''connection refused''),
              PrimaryEmpty],
       clock = 1, requests = [(GET, gh_github_url)]\<rparr>)"
    by (simp add: v2_update_all_def v2_load_hosts_eq deref_def logger_def Let_def
        module_loaded_def config_item_def DEFAULT_CONFIG_def gh_github_url_def)
  show ?thesis
    by (simp add: v2_init_plugin_def m c up v2_enable_def config_enabled_def
        v2_register_job_def host_remove_job_def logger_def Let_def)
qed

text \<open>
  Claim C8 as stated fails on the second variant's \<open>_disable\<close>: after \<open>init_plugin\<close> with
  the default configuration (the sources being unreachable, nothing is patched), the
  job is registered, and it still is after \<open>_disable\<close> has run once and twice.
\<close>

theorem v2_disable_keeps_job:
  "job (snd (v2_init_plugin offline_world None module_loaded)) = Some (4, None) \<and>
   job (v2_disable (snd (v2_init_plugin offline_world None module_loaded))) = Some (4, None) \<and>
   job (v2_disable (v2_disable (snd (v2_init_plugin offline_world None module_loaded)))) =
     Some (4, None)"
  by (simp add: v2_offline_init v2_disable_def store_def logger_def)

subsection \<open>The module-level cache\<close>

lemma deref_cache_field [simp]: "deref (st\<lparr>RUNTIME_HOSTS := x\<rparr>) r = deref st r"
  by (simp add: deref_def)

lemma gh_fetch_and_merge_frame:
  shows "RUNTIME_HOSTS (gh_fetch_and_merge e g st) = RUNTIME_HOSTS st"
    and "r < length (heap st) \<Longrightarrow> r \<noteq> g \<Longrightarrow> deref (gh_fetch_and_merge e g st) r = deref st r"
  by (simp_all add: gh_fetch_and_merge_def gh_load_hosts_eq update_in_place_def store_def
      deref_def logger_def gh_patch_def nth_append Let_def)

lemma gh_update_all_cache:
  shows "RUNTIME_HOSTS (gh_update_all e st) = RUNTIME_HOSTS st"
    and "r < length (heap st) \<Longrightarrow> deref (gh_update_all e st) r = deref st r"
  by (simp_all add: gh_update_all_def gh_load_hosts_eq gh_probe_github_eq gh_patch_def
      logger_def Let_def gh_fetch_and_merge_frame)
     (simp_all add: deref_def nth_append)

lemma v2_fetch_and_merge_cache:
  "RUNTIME_HOSTS (snd (v2_fetch_and_merge e g st)) = RUNTIME_HOSTS st \<or>
   (fst (v2_fetch_and_merge e g st) = None \<and>
    last (log (snd (v2_fetch_and_merge e g st))) = UpdateDone \<and>
    getaddrinfo (snd (v2_fetch_and_merge e g st)) =
      Patched (RUNTIME_HOSTS (snd (v2_fetch_and_merge e g st))))"
  by (simp add: v2_fetch_and_merge_def v2_load_hosts_eq update_in_place_def unpack_merge_def
      alloc_def store_def logger_def v2_patch_dns_def Let_def config_item_def
      split: option.splits sum.splits)

lemma v2_update_all_cache:
  "RUNTIME_HOSTS (snd (v2_update_all e st)) = RUNTIME_HOSTS st \<or>
   (fst (v2_update_all e st) = None \<and>
    last (log (snd (v2_update_all e st))) = UpdateDone \<and>
    getaddrinfo (snd (v2_update_all e st)) = Patched (RUNTIME_HOSTS (snd (v2_update_all e st))))"
proof -
  have "RUNTIME_HOSTS s = RUNTIME_HOSTS st \<Longrightarrow>
        RUNTIME_HOSTS (snd (v2_fetch_and_merge e g s)) = RUNTIME_HOSTS st \<or>
        (fst (v2_fetch_and_merge e g s) = None \<and>
         last (log (snd (v2_fetch_and_merge e g s))) = UpdateDone \<and>
         getaddrinfo (snd (v2_fetch_and_merge e g s)) =
           Patched (RUNTIME_HOSTS (snd (v2_fetch_and_merge e g s))))" for s g
    using v2_fetch_and_merge_cache [of e g s] by simp
  then show ?thesis
    by (simp add: v2_update_all_def v2_load_hosts_eq v2_probe_connectivity_eq logger_def
        v2_patch_dns_def Let_def config_item_def split: option.splits sum.splits)
qed

text \<open>
  Claim C10. The patched resolver reads the table object it was given, never the global
  \<open>_RUNTIME_HOSTS\<close>: rebinding the global changes no resolution. In a run that stops
  at the failed probe (both variants), the global and the object it names are as before,
  while the resolver is the patched one over another object, the fresh primary table.
  The first variant's pipeline never rebinds the global nor changes the object it names.
  The second variant's pipeline rebinds it only in a run that raises nothing and ends
  with the final log line, the resolver then being the patched one over that same
  object.
\<close>

theorem cache_not_consulted:
  "socket_getaddrinfo frames e (st\<lparr>RUNTIME_HOSTS := x\<rparr>) host prt hs =
     socket_getaddrinfo frames e st host prt hs \<and>
   (RUNTIME_HOSTS st < length (heap st) \<and>
    gh_load_hosts e gh_github_url st = (github_hosts, st1) \<and>
    deref st1 github_hosts \<noteq> [] \<and>
    \<not> fst (gh_probe_github e (gh_patch github_hosts st1))
    \<longrightarrow> RUNTIME_HOSTS (gh_update_all e st) = RUNTIME_HOSTS st \<and>
        deref (gh_update_all e st) (RUNTIME_HOSTS st) = deref st (RUNTIME_HOSTS st) \<and>
        getaddrinfo (gh_update_all e st) = Patched github_hosts \<and>
        github_hosts \<noteq> RUNTIME_HOSTS (gh_update_all e st) \<and>
        deref (gh_update_all e st) github_hosts = deref st1 github_hosts) \<and>
   (RUNTIME_HOSTS st < length (heap st) \<and>
    config_item st ''github_url'' = Inr github_url \<and>
    config_item st ''probe_url'' = Inr probe_url \<and>
    v2_load_hosts e github_url (logger UpdateStarted st) = (hosts2, st2) \<and>
    deref st2 hosts2 \<noteq> [] \<and>
    \<not> fst (v2_probe_connectivity e probe_url (v2_patch_dns hosts2 st2))
    \<longrightarrow> RUNTIME_HOSTS (snd (v2_update_all e st)) = RUNTIME_HOSTS st \<and>
        deref (snd (v2_update_all e st)) (RUNTIME_HOSTS st) = deref st (RUNTIME_HOSTS st) \<and>
        getaddrinfo (snd (v2_update_all e st)) = Patched hosts2 \<and>
        hosts2 \<noteq> RUNTIME_HOSTS (snd (v2_update_all e st)) \<and>
        deref (snd (v2_update_all e st)) hosts2 = deref st2 hosts2) \<and>
   RUNTIME_HOSTS (gh_update_all e st) = RUNTIME_HOSTS st \<and>
   (RUNTIME_HOSTS st < length (heap st)
    \<longrightarrow> deref (gh_update_all e st) (RUNTIME_HOSTS st) = deref st (RUNTIME_HOSTS st)) \<and>
   (RUNTIME_HOSTS (snd (v2_update_all e st)) = RUNTIME_HOSTS st \<or>
    (fst (v2_update_all e st) = None \<and>
     last (log (snd (v2_update_all e st))) = UpdateDone \<and>
     getaddrinfo (snd (v2_update_all e st)) =
       Patched (RUNTIME_HOSTS (snd (v2_update_all e st)))))"
proof (intro conjI impI)
  show "socket_getaddrinfo frames e (st\<lparr>RUNTIME_HOSTS := x\<rparr>) host prt hs =
     socket_getaddrinfo frames e st host prt hs"
    by (rule socket_getaddrinfo_cong) simp_all
next
  assume a: "RUNTIME_HOSTS st < length (heap st) \<and>
    gh_load_hosts e gh_github_url st = (github_hosts, st1) \<and>
    deref st1 github_hosts \<noteq> [] \<and>
    \<not> fst (gh_probe_github e (gh_patch github_hosts st1))"
  obtain ok st3 where p: "gh_probe_github e (gh_patch github_hosts st1) = (ok, st3)"
    by (cases "gh_probe_github e (gh_patch github_hosts st1)")
  with a have run: "gh_update_all e st = logger GateClosed st3"
    by (simp add: gh_update_all_def)
  note f = gh_load_hosts_frame [of e gh_github_url st github_hosts st1]
  note g = gh_probe_frame [OF p]
  show c: "RUNTIME_HOSTS (gh_update_all e st) = RUNTIME_HOSTS st"
    by (rule gh_update_all_cache)
  show "deref (gh_update_all e st) (RUNTIME_HOSTS st) = deref st (RUNTIME_HOSTS st)"
    using a by (simp add: gh_update_all_cache)
  show "getaddrinfo (gh_update_all e st) = Patched github_hosts"
    using g(4) by (simp add: run logger_def gh_patch_def)
  show "github_hosts \<noteq> RUNTIME_HOSTS (gh_update_all e st)"
    using a f(1) by (simp add: c)
  show "deref (gh_update_all e st) github_hosts = deref st1 github_hosts"
    using g(1) by (simp add: run logger_def gh_patch_def deref_def)
next
  assume a: "RUNTIME_HOSTS st < length (heap st) \<and>
    config_item st ''github_url'' = Inr github_url \<and>
    config_item st ''probe_url'' = Inr probe_url \<and>
    v2_load_hosts e github_url (logger UpdateStarted st) = (hosts2, st2) \<and>
    deref st2 hosts2 \<noteq> [] \<and>
    \<not> fst (v2_probe_connectivity e probe_url (v2_patch_dns hosts2 st2))"
  obtain ok st3 where p: "v2_probe_connectivity e probe_url (v2_patch_dns hosts2 st2) = (ok, st3)"
    by (cases "v2_probe_connectivity e probe_url (v2_patch_dns hosts2 st2)")
  note f = v2_load_hosts_frame [of e github_url "logger UpdateStarted st" hosts2 st2]
  have c2: "config_item st2 ''probe_url'' = Inr probe_url"
    using a f(10) by (simp add: config_item_def logger_def)
  from a p c2 have run: "v2_update_all e st = (None, logger GateClosed st3)"
    by (simp add: v2_update_all_def)
  note g = v2_probe_frame [OF p]
  from a f(2) obtain ys where h: "heap st2 = heap st @ ys"
    by (auto simp: logger_def)
  show c: "RUNTIME_HOSTS (snd (v2_update_all e st)) = RUNTIME_HOSTS st"
    using a f(8) g(6) by (simp add: run logger_def v2_patch_dns_def)
  show "deref (snd (v2_update_all e st)) (RUNTIME_HOSTS st) = deref st (RUNTIME_HOSTS st)"
    using a g(1) h by (simp add: run logger_def v2_patch_dns_def deref_def nth_append)
  show "getaddrinfo (snd (v2_update_all e st)) = Patched hosts2"
    using g(4) by (simp add: run logger_def v2_patch_dns_def)
  show "hosts2 \<noteq> RUNTIME_HOSTS (snd (v2_update_all e st))"
    using a f(1) by (simp add: c logger_def)
  show "deref (snd (v2_update_all e st)) hosts2 = deref st2 hosts2"
    using g(1) by (simp add: run logger_def v2_patch_dns_def deref_def)
next
  show "RUNTIME_HOSTS (gh_update_all e st) = RUNTIME_HOSTS st"
    by (rule gh_update_all_cache)
next
  assume "RUNTIME_HOSTS st < length (heap st)"
  then show "deref (gh_update_all e st) (RUNTIME_HOSTS st) = deref st (RUNTIME_HOSTS st)"
    by (rule gh_update_all_cache)
next
  show "RUNTIME_HOSTS (snd (v2_update_all e st)) = RUNTIME_HOSTS st \<or>
    (fst (v2_update_all e st) = None \<and>
     last (log (snd (v2_update_all e st))) = UpdateDone \<and>
     getaddrinfo (snd (v2_update_all e st)) =
       Patched (RUNTIME_HOSTS (snd (v2_update_all e st))))"
    by (rule v2_update_all_cache)
qed

theorem cache_not_consulted_witness:
  "RUNTIME_HOSTS module_loaded < length (heap module_loaded) \<and>
   deref (snd (gh_load_hosts gated_world gh_github_url module_loaded))
         (fst (gh_load_hosts gated_world gh_github_url module_loaded)) \<noteq> [] \<and>
   \<not> fst (gh_probe_github gated_world
            (gh_patch (fst (gh_load_hosts gated_world gh_github_url module_loaded))
                      (snd (gh_load_hosts gated_world gh_github_url module_loaded)))) \<and>
   RUNTIME_HOSTS (gh_update_all gated_world module_loaded) = 0 \<and>
   deref (gh_update_all gated_world module_loaded) 0 = [] \<and>
   getaddrinfo (gh_update_all gated_world module_loaded) = Patched 1 \<and>
   deref (gh_update_all gated_world module_loaded) 1 = primary_table \<and>
   config_item module_loaded ''github_url'' = Inr gh_github_url \<and>
   config_item module_loaded ''probe_url'' = Inr ''https://api.github.com'' \<and>
   deref (snd (v2_load_hosts gated_world gh_github_url (logger UpdateStarted module_loaded)))
         (fst (v2_load_hosts gated_world gh_github_url (logger UpdateStarted module_loaded))) \<noteq> [] \<and>
   \<not> fst (v2_probe_connectivity gated_world ''https://api.github.com''
            (v2_patch_dns
               (fst (v2_load_hosts gated_world gh_github_url (logger UpdateStarted module_loaded)))
               (snd (v2_load_hosts gated_world gh_github_url (logger UpdateStarted module_loaded))))) \<and>
   RUNTIME_HOSTS (snd (v2_update_all gated_world module_loaded)) = 0 \<and>
   deref (snd (v2_update_all gated_world module_loaded)) 0 = [] \<and>
   getaddrinfo (snd (v2_update_all gated_world module_loaded)) = Patched 1 \<and>
   deref (snd (v2_update_all gated_world module_loaded)) 1 = primary_table"
proof -
  have l1: "gh_load_hosts gated_world gh_github_url module_loaded =
              (1, module_loaded\<lparr>heap := [[], primary_table], clock := 1,
                                requests := [(GET, gh_github_url)]\<rparr>)"
    by (simp add: gh_load_hosts_eq gh_github_url_def)
  have l2: "v2_load_hosts gated_world gh_github_url (logger UpdateStarted module_loaded) =
              (1, module_loaded\<lparr>heap := [[], primary_table],
                                log := [UpdateStarted, Loaded 2 gh_github_url], clock := 1,
                                requests := [(GET, gh_github_url)]\<rparr>)"
    by (simp add: v2_load_hosts_eq gh_github_url_def logger_def primary_table_def)
  have h1: "\<not> fst (gh_probe_github gated_world
            (gh_patch (fst (gh_load_hosts gated_world gh_github_url module_loaded))
                      (snd (gh_load_hosts gated_world gh_github_url module_loaded))))"
    by (simp add: gh_probe_github_eq)
  have h2: "\<not> fst (v2_probe_connectivity gated_world ''https://api.github.com''
            (v2_patch_dns
               (fst (v2_load_hosts gated_world gh_github_url (logger UpdateStarted module_loaded)))
               (snd (v2_load_hosts gated_world gh_github_url (logger UpdateStarted module_loaded)))))"
    by (simp add: v2_probe_connectivity_eq)
  show ?thesis
    using cache_not_consulted [where e = gated_world and st = module_loaded
        and github_hosts = "fst (gh_load_hosts gated_world gh_github_url module_loaded)"
        and ?st1.0 = "snd (gh_load_hosts gated_world gh_github_url module_loaded)"
        and github_url = gh_github_url and probe_url = "''https://api.github.com''"
        and ?hosts2.0 = "fst (v2_load_hosts gated_world gh_github_url (logger UpdateStarted module_loaded))"
        and ?st2.0 = "snd (v2_load_hosts gated_world gh_github_url (logger UpdateStarted module_loaded))"]
      h1 h2
    by (simp add: l1 l2 deref_def gh_gated_run v2_gated_run)
qed

subsection \<open>Scenario A, run\<close>

lemma parse_tmdb:
  "parse scenario_accepts ''104.244.42.1 api.themoviedb.org'' = (tmdb_table, None)"
  by (simp add: parse_def parse_line_def text_defs py_index_def is_valid_ip_def
      scenario_accepts_def dict_set_def tmdb_table_def)

lemma parse_nothing: "parse accepts [] = ([], None)"
  by (simp add: parse_def splitlines_def)

lemma fetched_open [simp]:
  "fetched open_world t gh_github_url = primary_table"
  "fetched open_world t gh_tmdb_ipv4_url = tmdb_table"
  "fetched open_world t gh_tmdb_ipv6_url = []"
  "fetched open_world t ''https://raw.githubusercontent.com/cnwikee/CheckTMDB/main/Tmdb_host_ipv4'' = tmdb_table"
  "fetched open_world t ''https://raw.githubusercontent.com/cnwikee/CheckTMDB/main/Tmdb_host_ipv6'' = []"
  "fetch_failure open_world t url = None"
  "probe_passes open_world t url = True"
  by (simp_all add: fetched_def fetch_failure_def probe_passes_def open_world_def all_sources_def world_def
      raise_for_status_def parse_primary parse_tmdb parse_nothing gh_github_url_def
      gh_tmdb_ipv4_url_def gh_tmdb_ipv6_url_def)

lemma gh_scenario_a:
  "getaddrinfo (gh_update_all open_world module_loaded) = Patched 1"
  "deref (gh_update_all open_world module_loaded) 1 = primary_table @ tmdb_table"
  "RUNTIME_HOSTS (gh_update_all open_world module_loaded) = 0"
  "deref (gh_update_all open_world module_loaded) 0 = []"
  "last (log (gh_update_all open_world module_loaded)) = MergedTotal 3"
  by (simp_all add: gh_update_all_def gh_fetch_and_merge_def gh_load_hosts_eq gh_probe_github_eq
      gh_patch_def update_in_place_def store_def deref_def logger_def Let_def
      dict_update_def dict_set_def primary_table_def tmdb_table_def)

lemma v2_scenario_a:
  "fst (v2_update_all open_world module_loaded) = None"
  "getaddrinfo (snd (v2_update_all open_world module_loaded)) = Patched 4"
  "RUNTIME_HOSTS (snd (v2_update_all open_world module_loaded)) = 4"
  "deref (snd (v2_update_all open_world module_loaded)) 4 = primary_table @ tmdb_table"
  "deref (snd (v2_update_all open_world module_loaded)) 1 = primary_table"
  by (simp_all add: v2_update_all_def v2_fetch_and_merge_def v2_load_hosts_eq
      v2_probe_connectivity_eq v2_patch_dns_def update_in_place_def unpack_merge_def alloc_def
      store_def deref_def logger_def Let_def config_item_def DEFAULT_CONFIG_def
      gh_github_url_def [symmetric] dict_update_def dict_set_def primary_table_def
      tmdb_table_def)

end
